theory Spec2Isabelle
  imports Main
begin

section \<open>Data exchanged with the two REST collaborators\<close>

text \<open>
  The program of \<^verbatim>\<open>src/app.js\<close> talks to the on-call provider and to the messaging
  platform through \<^verbatim>\<open>axios\<close> and writes to the console. JSON objects are records; a
  field that the code guards with \<^verbatim>\<open>&&\<close> or \<^verbatim>\<open>||\<close> is an \<open>option\<close>
  (\<open>None\<close> is JavaScript's \<^verbatim>\<open>undefined\<close>/\<^verbatim>\<open>null\<close>, which such a guard treats
  alike); the other fields have the type the interface gives them. Identifiers and
  names are strings, compared by \<^verbatim>\<open>===\<close>, which on strings is equality of the
  character sequences.
\<close>

text \<open>
  A field that the code reads without a guard, and on which \<^verbatim>\<open>undefined\<close> and
  \<^verbatim>\<open>null\<close> show differently: the \<^verbatim>\<open>error\<close> printed by a template literal, and the
  \<^verbatim>\<open>members\<close> on which \<^verbatim>\<open>find\<close> is called.
\<close>

datatype 'a field = Undefined | Null | Present 'a

record pd_user =
  user_id :: string
  user_summary :: string

record pd_schedule =
  schedule_id :: string

record oncall =
  oncall_user :: "pd_user option"
  oncall_schedule :: "pd_schedule option"

record slack_user =
  user_real_name :: string

record member =
  member_id :: string
  member_name :: string
  member_real_name :: string
  profile_real_name :: string

text \<open>
  One record for every response body (\<^verbatim>\<open>response.data\<close>): each endpoint fills the
  fields it has and leaves the others absent. A missing \<^verbatim>\<open>ok\<close> is falsy, as
  \<open>False\<close> is.
\<close>

record body =
  body_oncalls :: "oncall list option"
  body_ok :: bool
  body_error :: "string field"
  body_users :: "string list option"
  body_user :: "slack_user option"
  body_members :: "member list field"

record config =
  pagerdutyApiToken :: string
  slackApiToken :: string
  slackGroupId :: string
  slackChannelId :: string
  skipSchedules :: "string list"

text \<open>
  The requests the program issues, with the parameters that vary (the fixed flags
  \<^verbatim>\<open>include_disabled\<close>, \<^verbatim>\<open>link_names\<close>, \<^verbatim>\<open>mrkdwn\<close> and the content-type headers
  are constants of the source and are left out).
\<close>

datatype request =
    PagerDutyOncalls string
  | UsergroupsUsersList string string
  | UsersInfo string string
  | UsersList string
  | UsergroupsUsersUpdate string string string
  | ChatPostMessage string string string

text \<open>
  \<^verbatim>\<open>axios\<close> rejects on a transport failure or a status outside 2xx (carrying a
  message) and resolves with the parsed body otherwise.
\<close>

datatype response = Rejected string | Resolved body

text \<open>
  The trace of a run: each exchange with a service together with the answer it got, and
  each line written with \<^verbatim>\<open>console.log\<close> or \<^verbatim>\<open>console.error\<close>, in the order in
  which they happened. A line is its text without the colour codes of \<^verbatim>\<open>chalk\<close>;
  several arguments of one call are joined by a space, as \<^verbatim>\<open>chalk\<close> joins them.
\<close>

datatype event =
    Request request response
  | Console_log string
  | Console_error string

type_synonym trace = "event list"

datatype js_error = Error string | TypeError string

fun message :: "js_error \<Rightarrow> string" where
  "message (Error m) = m"
| "message (TypeError m) = m"

text \<open>
  The outcome of awaiting an async function: it rejects with an error (\<open>Inl\<close>) or
  resolves with a value (\<open>Inr\<close>); either way it has extended the trace of what the run
  did so far.
\<close>

type_synonym 'a promise = "(js_error + 'a) \<times> trace"

fun calls_of :: "trace \<Rightarrow> (request \<times> response) list" where
  "calls_of [] = []"
| "calls_of (Request q r # tr) = (q, r) # calls_of tr"
| "calls_of (Console_log s # tr) = calls_of tr"
| "calls_of (Console_error s # tr) = calls_of tr"

text \<open>
  The two remote services are a parameter: a function that answers a request given
  the exchanges made so far (they do not see the console).
\<close>

type_synonym env = "(request \<times> response) list \<Rightarrow> request \<Rightarrow> response"

text \<open>
  \<^verbatim>\<open>await axios.get(...)\<close> and \<^verbatim>\<open>await axios.post(...)\<close>: the exchange is recorded, a
  rejection is thrown. \<open>await\<close> passes a resolved value on and lets a rejection
  through; \<open>try_catch\<close> is \<^verbatim>\<open>try { ... } catch (error) { ... }\<close> around an awaited body.
\<close>

definition axios :: "env \<Rightarrow> request \<Rightarrow> trace \<Rightarrow> body promise" where
  "axios env req tr =
     (let r = env (calls_of tr) req
      in (case r of
            Rejected m \<Rightarrow> (Inl (Error m), tr @ [Request req r])
          | Resolved b \<Rightarrow> (Inr b, tr @ [Request req r])))"

definition await :: "'a promise \<Rightarrow> ('a \<Rightarrow> trace \<Rightarrow> 'b promise) \<Rightarrow> 'b promise" where
  "await p k = (case p of (Inl e, tr) \<Rightarrow> (Inl e, tr) | (Inr x, tr) \<Rightarrow> k x tr)"

definition try_catch :: "'a promise \<Rightarrow> (js_error \<Rightarrow> trace \<Rightarrow> 'a promise) \<Rightarrow> 'a promise" where
  "try_catch p h = (case p of (Inl e, tr) \<Rightarrow> h e tr | (Inr x, tr) \<Rightarrow> (Inr x, tr))"

section \<open>Strings\<close>

text \<open>\<^verbatim>\<open>Array.prototype.join\<close> on an array of strings.\<close>

fun join :: "string \<Rightarrow> string list \<Rightarrow> string" where
  "join sep [] = []"
| "join sep [x] = x"
| "join sep (x # y # ys) = x @ sep @ join sep (y # ys)"

text \<open>
  A template literal prints \<^verbatim>\<open>undefined\<close> as \<^verbatim>\<open>undefined\<close> and \<^verbatim>\<open>null\<close> as
  \<^verbatim>\<open>null\<close>.
\<close>

fun template :: "string field \<Rightarrow> string" where
  "template Undefined = ''undefined''"
| "template Null = ''null''"
| "template (Present s) = s"

definition newline :: string where
  "newline = [CHR 0x0A]"

text \<open>The bullet and the check mark of the source, as their UTF-8 bytes.\<close>

definition bullet :: string where
  "bullet = [CHR 0xE2, CHR 0x80, CHR 0xA2]"

definition check_mark :: string where
  "check_mark = [CHR 0xE2, CHR 0x9C, CHR 0x93]"

section \<open>The on-call resolver\<close>

text \<open>
  A JavaScript \<^verbatim>\<open>Map\<close> keeps its keys in insertion order; \<^verbatim>\<open>set\<close> on a key that is
  present replaces the value where the key stands, and on a new key appends.
\<close>

fun Map_set :: "'k \<Rightarrow> 'v \<Rightarrow> ('k \<times> 'v) list \<Rightarrow> ('k \<times> 'v) list" where
  "Map_set k v [] = [(k, v)]"
| "Map_set k v ((k', v') # m) = (if k' = k then (k', v) # m else (k', v') # Map_set k v m)"

definition Map_values :: "('k \<times> 'v) list \<Rightarrow> 'v list" where
  "Map_values m = map snd m"

text \<open>
  Lines 25 to 29 of \<^verbatim>\<open>src/app.js\<close>: the callback of \<^verbatim>\<open>oncalls.forEach\<close>, applied to the
  records in payload order; \<^verbatim>\<open>config.skipSchedules.includes\<close> is membership in the list.
\<close>

fun forEach_oncall :: "config \<Rightarrow> oncall list \<Rightarrow> (string \<times> string) list \<Rightarrow> (string \<times> string) list" where
  "forEach_oncall cfg [] uniqueUsers = uniqueUsers"
| "forEach_oncall cfg (oc # rest) uniqueUsers =
     forEach_oncall cfg rest
       (if oncall_user oc \<noteq> None \<and> oncall_schedule oc \<noteq> None
           \<and> schedule_id (the (oncall_schedule oc)) \<notin> set (skipSchedules cfg)
        then Map_set (user_id (the (oncall_user oc))) (user_summary (the (oncall_user oc)))
               uniqueUsers
        else uniqueUsers)"

text \<open>
  Lines 13 to 37: the body of the \<^verbatim>\<open>try\<close> block of \<^verbatim>\<open>getOnCallUsers\<close>, and the
  function with its \<^verbatim>\<open>catch\<close>, which rethrows with a prefix.
\<close>

definition getOnCallUsers_try :: "config \<Rightarrow> env \<Rightarrow> trace \<Rightarrow> string list promise" where
  "getOnCallUsers_try cfg env tr =
     await (axios env (PagerDutyOncalls (pagerdutyApiToken cfg))
              (tr @ [Console_log ''Fetching on-call users from PagerDuty...'']))
       (\<lambda>b tr1.
          let oncalls = (case body_oncalls b of None \<Rightarrow> [] | Some xs \<Rightarrow> xs);
              uniqueUsers = forEach_oncall cfg oncalls [];
              users = Map_values uniqueUsers
          in (Inr users, tr1 @ [Console_log (''Found on-call users: '' @ join '', '' users)]))"

definition getOnCallUsers :: "config \<Rightarrow> env \<Rightarrow> trace \<Rightarrow> string list promise" where
  "getOnCallUsers cfg env tr =
     try_catch (getOnCallUsers_try cfg env tr)
       (\<lambda>e tr1. (Inl (Error (''Failed to get on-call users: '' @ message e)), tr1))"

section \<open>Current group membership\<close>

text \<open>
  Lines 39 to 76. \<open>userInfo_loop\<close> is the \<^verbatim>\<open>for\<close> loop over the member identifiers
  (lines 59 to 69); a rejected \<^verbatim>\<open>users.info\<close> call leaves the loop and reaches the
  \<^verbatim>\<open>catch\<close> of \<^verbatim>\<open>getCurrentGroupMembers\<close>, which logs and returns the empty list.
\<close>

fun userInfo_loop :: "config \<Rightarrow> env \<Rightarrow> string list \<Rightarrow> string list \<Rightarrow> trace \<Rightarrow> string list promise" where
  "userInfo_loop cfg env [] userNames tr = (Inr userNames, tr)"
| "userInfo_loop cfg env (userId # rest) userNames tr =
     await (axios env (UsersInfo (slackApiToken cfg) userId) tr)
       (\<lambda>b tr1.
          if body_ok b \<and> body_user b \<noteq> None
          then userInfo_loop cfg env rest (userNames @ [user_real_name (the (body_user b))]) tr1
          else userInfo_loop cfg env rest userNames tr1)"

definition getCurrentGroupMembers_try :: "config \<Rightarrow> env \<Rightarrow> trace \<Rightarrow> string list promise" where
  "getCurrentGroupMembers_try cfg env tr =
     await (axios env (UsergroupsUsersList (slackApiToken cfg) (slackGroupId cfg)) tr)
       (\<lambda>b tr1.
          if \<not> body_ok b
          then (Inl (Error (''Failed to get group members: '' @ template (body_error b))), tr1)
          else
            let users = (case body_users b of None \<Rightarrow> [] | Some xs \<Rightarrow> xs)
            in userInfo_loop cfg env users [] tr1)"

definition getCurrentGroupMembers :: "config \<Rightarrow> env \<Rightarrow> trace \<Rightarrow> string list promise" where
  "getCurrentGroupMembers cfg env tr =
     try_catch (getCurrentGroupMembers_try cfg env tr)
       (\<lambda>e tr1.
          (Inr [], tr1 @ [Console_error (''Failed to get current group members: '' @ message e)]))"

section \<open>The directory matcher\<close>

text \<open>
  Lines 78 to 101. \<^verbatim>\<open>Array.prototype.find\<close> is \<open>find\<close>: the first element, in order,
  that satisfies the predicate. \<^verbatim>\<open>user ? user.id : null\<close> tests the entry found, an
  object, so an entry that is found gives its \<^verbatim>\<open>id\<close> whatever that is.
  \<^verbatim>\<open>response.data.members.find\<close> on \<^verbatim>\<open>members\<close> that are \<^verbatim>\<open>undefined\<close> or
  \<^verbatim>\<open>null\<close> is a \<^verbatim>\<open>TypeError\<close>; its message is the engine's (here V8's) and names
  which of the two it met.
\<close>

definition cannot_read_find :: "string \<Rightarrow> string" where
  "cannot_read_find what = ''Cannot read properties of '' @ what @ '' (reading 'find')''"

definition getSlackUserIdByName_try :: "config \<Rightarrow> env \<Rightarrow> string \<Rightarrow> trace \<Rightarrow> string option promise" where
  "getSlackUserIdByName_try cfg env name tr =
     await (axios env (UsersList (slackApiToken cfg)) tr)
       (\<lambda>b tr1.
          if \<not> body_ok b
          then (Inl (Error (''Failed to list users: '' @ template (body_error b))), tr1)
          else
            (case body_members b of
               Undefined \<Rightarrow> (Inl (TypeError (cannot_read_find ''undefined'')), tr1)
             | Null \<Rightarrow> (Inl (TypeError (cannot_read_find ''null'')), tr1)
             | Present members \<Rightarrow>
                 (case find (\<lambda>m. member_real_name m = name \<or> member_name m = name
                                  \<or> profile_real_name m = name) members of
                    None \<Rightarrow> (Inr None, tr1)
                  | Some user \<Rightarrow> (Inr (Some (member_id user)), tr1))))"

definition getSlackUserIdByName :: "config \<Rightarrow> env \<Rightarrow> string \<Rightarrow> trace \<Rightarrow> string option promise" where
  "getSlackUserIdByName cfg env name tr =
     try_catch (getSlackUserIdByName_try cfg env name tr)
       (\<lambda>e tr1.
          (Inr None,
           tr1 @ [Console_error (''Failed to get Slack ID for '' @ name @ '': '' @ message e)]))"

section \<open>The group membership updater\<close>

text \<open>
  Lines 103 to 148. \<open>lookup_loop\<close> is the \<^verbatim>\<open>for\<close> loop of lines 113 to 121.
  \<^verbatim>\<open>if (slackId)\<close> is a truthiness test: \<^verbatim>\<open>null\<close> and the empty string are falsy.
\<close>

fun truthy :: "string option \<Rightarrow> bool" where
  "truthy None = False"
| "truthy (Some s) = (s \<noteq> [])"

fun lookup_loop :: "config \<Rightarrow> env \<Rightarrow> string list \<Rightarrow> string list \<Rightarrow> trace \<Rightarrow> string list promise" where
  "lookup_loop cfg env [] slackUserIds tr = (Inr slackUserIds, tr)"
| "lookup_loop cfg env (user # rest) slackUserIds tr =
     await (getSlackUserIdByName cfg env user tr)
       (\<lambda>slackId tr1.
          if truthy slackId
          then lookup_loop cfg env rest (slackUserIds @ [the slackId])
                 (tr1 @ [Console_log (''Found Slack ID for '' @ user @ '': '' @ the slackId)])
          else lookup_loop cfg env rest slackUserIds
                 (tr1 @ [Console_log (''Could not find Slack ID for '' @ user)]))"

text \<open>\<^verbatim>\<open>s || 'None'\<close>: the empty string is falsy.\<close>

definition or_None :: "string \<Rightarrow> string" where
  "or_None s = (if s = [] then ''None'' else s)"

definition updateGroupMembers_try :: "config \<Rightarrow> env \<Rightarrow> string list \<Rightarrow> trace \<Rightarrow> unit promise" where
  "updateGroupMembers_try cfg env users tr =
     await (getCurrentGroupMembers cfg env (tr @ [Console_log ''Current group members:'']))
       (\<lambda>currentMembers tr1.
     await (lookup_loop cfg env users []
              (tr1 @ [Console_log (or_None (join '', '' currentMembers)),
                      Console_log (newline @ ''Looking up Slack IDs for users...'')]))
       (\<lambda>slackUserIds tr2.
          if slackUserIds = []
          then (Inr (), tr2 @ [Console_log ''No valid Slack user IDs found, skipping update''])
          else
     await (axios env (UsergroupsUsersUpdate (slackApiToken cfg) (slackGroupId cfg)
                         (join '','' slackUserIds))
              (tr2 @ [Console_log (newline @ ''Updating Slack user group with: ''
                                     @ join '', '' users)]))
       (\<lambda>_ tr3.
     await (getCurrentGroupMembers cfg env
              (tr3 @ [Console_log (newline @ ''New group members:'')]))
       (\<lambda>newMembers tr4.
          (Inr (), tr4 @ [Console_log (or_None (join '', '' newMembers)),
                          Console_log ''Successfully updated Slack group members''])))))"

definition updateGroupMembers :: "config \<Rightarrow> env \<Rightarrow> string list \<Rightarrow> trace \<Rightarrow> unit promise" where
  "updateGroupMembers cfg env users tr =
     try_catch (updateGroupMembers_try cfg env users tr)
       (\<lambda>e tr1. (Inl (Error (''Failed to update group members: '' @ message e)), tr1))"

section \<open>The top-level orchestrator\<close>

text \<open>
  Lines 150 to 177. \<open>notification_text\<close> is the template literal of line 158.
\<close>

definition notification_text :: "string list \<Rightarrow> string" where
  "notification_text users =
     '':rotating_light: On-Call Update :rotating_light:'' @ newline
     @ ''Current on-call engineers:'' @ newline
     @ bullet @ '' '' @ join (newline @ bullet @ '' '') users"

definition updateSlackGroup_try :: "config \<Rightarrow> env \<Rightarrow> trace \<Rightarrow> unit promise" where
  "updateSlackGroup_try cfg env tr =
     await (getOnCallUsers cfg env (tr @ [Console_log ''Starting Slack group update...'']))
       (\<lambda>users tr1.
          if length users > 0
          then
     await (axios env (ChatPostMessage (slackApiToken cfg) (slackChannelId cfg)
                         (notification_text users)) tr1)
       (\<lambda>_ tr2.
     await (updateGroupMembers cfg env users tr2)
       (\<lambda>_ tr3.
          (Inr (), tr3 @ [Console_log (check_mark @ '' Slack user group update complete'')])))
          else (Inr (), tr1 @ [Console_log ''No on-call users found'']))"

definition updateSlackGroup :: "config \<Rightarrow> env \<Rightarrow> trace \<Rightarrow> unit promise" where
  "updateSlackGroup cfg env tr =
     try_catch (updateSlackGroup_try cfg env tr)
       (\<lambda>e tr1.
          (Inr (), tr1 @ [Console_error (''Failed to update Slack group: '' @ message e)]))"

section \<open>Reading a run off its trace\<close>

text \<open>
  The exchanges a run added to the trace it started from, the responses it got from the
  directory listing, and the group overwrites it sent.
\<close>

definition new_calls :: "trace \<Rightarrow> trace \<Rightarrow> (request \<times> response) list" where
  "new_calls tr tr' = drop (length (calls_of tr)) (calls_of tr')"

fun is_UsersList :: "request \<Rightarrow> bool" where
  "is_UsersList (UsersList token) = True"
| "is_UsersList _ = False"

fun is_Update :: "request \<Rightarrow> bool" where
  "is_Update (UsergroupsUsersUpdate token usergroup users) = True"
| "is_Update _ = False"

fun is_Post :: "request \<Rightarrow> bool" where
  "is_Post (ChatPostMessage token channel text) = True"
| "is_Post _ = False"

definition listings :: "(request \<times> response) list \<Rightarrow> response list" where
  "listings calls = map snd (filter (\<lambda>c. is_UsersList (fst c)) calls)"

definition updates :: "(request \<times> response) list \<Rightarrow> (request \<times> response) list" where
  "updates calls = filter (\<lambda>c. is_Update (fst c)) calls"

definition posts :: "(request \<times> response) list \<Rightarrow> (request \<times> response) list" where
  "posts calls = filter (\<lambda>c. is_Post (fst c)) calls"

text \<open>A stretch of trace with no directory listing and no group overwrite in it.\<close>

definition quiet :: "trace \<Rightarrow> bool" where
  "quiet new \<longleftrightarrow> listings (calls_of new) = [] \<and> updates (calls_of new) = []"

text \<open>
  The directory matcher as section 4.2 of the specification words it: an entry matches
  when one of its three name fields equals the name, the first match in directory
  order gives the identifier, and a listing that failed or was not ok gives none.
\<close>

definition resolves_to :: "string \<Rightarrow> response \<Rightarrow> string option" where
  "resolves_to name r =
     (case r of
        Rejected _ \<Rightarrow> None
      | Resolved b \<Rightarrow>
          if body_ok b
          then (case body_members b of
                  Present members \<Rightarrow>
                    map_option member_id
                      (find (\<lambda>m. member_name m = name \<or> member_real_name m = name
                                \<or> profile_real_name m = name) members)
                | _ \<Rightarrow> None)
          else None)"

text \<open>
  The identifiers that a list of names resolves to, the \<open>i\<close>-th name against the
  \<open>i\<close>-th listing; \<open>resolved_ids\<close> keeps every identifier, \<open>nonempty_ids\<close> those
  that are not the empty string.
\<close>

fun resolved_ids :: "string list \<Rightarrow> response list \<Rightarrow> string list" where
  "resolved_ids (name # names) (r # rs) =
     (case resolves_to name r of
        None \<Rightarrow> resolved_ids names rs
      | Some i \<Rightarrow> i # resolved_ids names rs)"
| "resolved_ids _ _ = []"

definition nonempty_ids :: "string list \<Rightarrow> response list \<Rightarrow> string list" where
  "nonempty_ids names rs = filter (\<lambda>i. i \<noteq> []) (resolved_ids names rs)"

section \<open>Sample collaborators\<close>

text \<open>
  Concrete bodies, responses and services on which the theorems below are instantiated.
  \<open>services\<close> answers each endpoint with one fixed response, whatever came before.
\<close>

definition cfg0 :: config where
  "cfg0 = \<lparr>pagerdutyApiToken = ''pd-token'', slackApiToken = ''slack-token'',
            slackGroupId = ''G1'', slackChannelId = ''C1'', skipSchedules = [''S1'']\<rparr>"

definition absent :: body where
  "absent = \<lparr>body_oncalls = None, body_ok = False, body_error = Undefined,
              body_users = None, body_user = None, body_members = Undefined\<rparr>"

definition assignment :: "string \<Rightarrow> string \<Rightarrow> string \<Rightarrow> oncall" where
  "assignment sid uid name =
     \<lparr>oncall_user = Some \<lparr>user_id = uid, user_summary = name\<rparr>,
      oncall_schedule = Some \<lparr>schedule_id = sid\<rparr>\<rparr>"

definition entry :: "string \<Rightarrow> string \<Rightarrow> string \<Rightarrow> string \<Rightarrow> member" where
  "entry i n rn prn =
     \<lparr>member_id = i, member_name = n, member_real_name = rn, profile_real_name = prn\<rparr>"

definition oncalls_body :: "oncall list \<Rightarrow> body" where
  "oncalls_body ocs = absent\<lparr>body_oncalls := Some ocs\<rparr>"

definition ok_body :: body where
  "ok_body = absent\<lparr>body_ok := True\<rparr>"

definition users_body :: "string list \<Rightarrow> body" where
  "users_body ids = absent\<lparr>body_ok := True, body_users := Some ids\<rparr>"

definition user_body :: "string \<Rightarrow> body" where
  "user_body name = absent\<lparr>body_ok := True, body_user := Some \<lparr>user_real_name = name\<rparr>\<rparr>"

definition members_body :: "member list \<Rightarrow> body" where
  "members_body ms = absent\<lparr>body_ok := True, body_members := Present ms\<rparr>"

definition error_body :: "string \<Rightarrow> body" where
  "error_body e = absent\<lparr>body_error := Present e\<rparr>"

definition services ::
  "response \<Rightarrow> response \<Rightarrow> response \<Rightarrow> response \<Rightarrow> response \<Rightarrow> response \<Rightarrow> env" where
  "services oncalls group_list user_info users_list group_update post_message history req =
     (case req of
        PagerDutyOncalls _ \<Rightarrow> oncalls
      | UsergroupsUsersList _ _ \<Rightarrow> group_list
      | UsersInfo _ _ \<Rightarrow> user_info
      | UsersList _ \<Rightarrow> users_list
      | UsergroupsUsersUpdate _ _ _ \<Rightarrow> group_update
      | ChatPostMessage _ _ _ \<Rightarrow> post_message)"

definition directory0 :: "member list" where
  "directory0 =
     [entry ''U10'' ''bob'' ''Bob Jones'' ''Robert Jones'',
      entry ''U11'' ''alice'' ''Alice'' ''Alice Smith'',
      entry ''U12'' ''al'' ''Alice Smith'' ''Alice'']"

text \<open>A messaging platform in good order behind an on-call provider that answers \<open>r\<close>.\<close>

definition healthy :: "response \<Rightarrow> env" where
  "healthy r =
     services r (Resolved (users_body [''U10''])) (Resolved (user_body ''Bob Jones''))
       (Resolved (members_body directory0)) (Resolved ok_body) (Resolved ok_body)"

text \<open>
  A directory listing that answers \<open>r\<close> the first time it is asked and is in good order
  from then on.
\<close>

definition first_listing :: "response \<Rightarrow> env" where
  "first_listing r history req =
     (case req of
        UsersList _ \<Rightarrow>
          if listings history = [] then r else Resolved (members_body directory0)
      | _ \<Rightarrow> healthy (Rejected ''unused'') history req)"

section \<open>Facts about the model\<close>

lemma calls_of_append: "calls_of (xs @ ys) = calls_of xs @ calls_of ys"
  by (induction xs rule: calls_of.induct) simp_all

subsection \<open>The insertion-ordered map\<close>

lemma map_of_Map_set: "map_of (Map_set k v m) = (map_of m)(k \<mapsto> v)"
  by (induction m) auto

lemma keys_Map_set:
  "map fst (Map_set k v m) = (if k \<in> set (map fst m) then map fst m else map fst m @ [k])"
  by (induction m) force+

lemma distinct_Map_set: "distinct (map fst m) \<Longrightarrow> distinct (map fst (Map_set k v m))"
  by (simp add: keys_Map_set)

lemma one_entry_per_key:
  assumes "distinct (map fst m)" and "(k, v) \<in> set m"
  shows "length (filter (\<lambda>e. fst e = k) m) = 1"
  using assms
proof (induction m)
  case Nil
  then show ?case by simp
next
  case (Cons e m)
  show ?case
  proof (cases "fst e = k")
    case True
    with Cons.prems have "filter (\<lambda>e. fst e = k) m = []"
      by (auto simp: filter_empty_conv intro: rev_image_eqI)
    with True show ?thesis by simp
  next
    case False
    with Cons show ?thesis by auto
  qed
qed

subsection \<open>The loop over the on-call records\<close>

lemma forEach_oncall_append:
  "forEach_oncall cfg (xs @ ys) m = forEach_oncall cfg ys (forEach_oncall cfg xs m)"
  by (induction xs arbitrary: m) simp_all

lemma forEach_oncall_snoc:
  "forEach_oncall cfg (xs @ [oc]) m =
     (if oncall_user oc \<noteq> None \<and> oncall_schedule oc \<noteq> None
         \<and> schedule_id (the (oncall_schedule oc)) \<notin> set (skipSchedules cfg)
      then Map_set (user_id (the (oncall_user oc))) (user_summary (the (oncall_user oc)))
             (forEach_oncall cfg xs m)
      else forEach_oncall cfg xs m)"
  by (simp add: forEach_oncall_append)

lemma forEach_oncall_distinct:
  "distinct (map fst m) \<Longrightarrow> distinct (map fst (forEach_oncall cfg ocs m))"
  by (induction ocs arbitrary: m) (simp_all add: distinct_Map_set)

lemma forEach_oncall_filter:
  "forEach_oncall cfg
     (filter (\<lambda>oc. \<not> (\<exists>s. oncall_schedule oc = Some s
                        \<and> schedule_id s \<in> set (skipSchedules cfg))) ocs) m
     = forEach_oncall cfg ocs m"
  by (induction ocs arbitrary: m) auto

lemma forEach_oncall_unusable:
  "\<forall>oc \<in> set ocs. oncall_user oc = None \<or> oncall_schedule oc = None
       \<or> schedule_id (the (oncall_schedule oc)) \<in> set (skipSchedules cfg)
   \<Longrightarrow> forEach_oncall cfg ocs m = m"
  by (induction ocs arbitrary: m) auto

lemma forEach_oncall_lookup:
  "map_of (forEach_oncall cfg ocs []) uid =
     (let recs = filter (\<lambda>oc. \<exists>u s. oncall_user oc = Some u \<and> oncall_schedule oc = Some s
                          \<and> schedule_id s \<notin> set (skipSchedules cfg) \<and> user_id u = uid) ocs
      in if recs = [] then None else Some (user_summary (the (oncall_user (last recs)))))"
  (is "?lhs ocs = ?rhs ocs")
proof (induction ocs rule: rev_induct)
  case Nil
  show ?case by simp
next
  case (snoc oc ocs)
  let ?P = "\<lambda>oc. \<exists>u s. oncall_user oc = Some u \<and> oncall_schedule oc = Some s
                \<and> schedule_id s \<notin> set (skipSchedules cfg) \<and> user_id u = uid"
  let ?use = "oncall_user oc \<noteq> None \<and> oncall_schedule oc \<noteq> None
                \<and> schedule_id (the (oncall_schedule oc)) \<notin> set (skipSchedules cfg)"
  show ?case
  proof (cases "?P oc")
    case True
    then have use: ?use and uid: "user_id (the (oncall_user oc)) = uid"
      by auto
    have "filter ?P (ocs @ [oc]) = filter ?P ocs @ [oc]"
      using True by simp
    then have "?rhs (ocs @ [oc]) = Some (user_summary (the (oncall_user oc)))"
      by (simp add: Let_def)
    moreover have "?lhs (ocs @ [oc]) = Some (user_summary (the (oncall_user oc)))"
      using use uid by (simp add: forEach_oncall_snoc map_of_Map_set)
    ultimately show ?thesis by simp
  next
    case False
    then have flt: "filter ?P (ocs @ [oc]) = filter ?P ocs"
      by simp
    have "?lhs (ocs @ [oc]) = ?lhs ocs"
    proof (cases ?use)
      case True
      with False have "user_id (the (oncall_user oc)) \<noteq> uid"
        by auto
      with True show ?thesis
        by (simp add: forEach_oncall_snoc map_of_Map_set)
    next
      case False
      then show ?thesis
        by (simp only: forEach_oncall_snoc if_False)
    qed
    with snoc flt show ?thesis
      by (simp only:)
  qed
qed

lemma set_Map_set: "set (Map_set k v m) \<subseteq> insert (k, v) (set m)"
  by (induction m) (auto split: if_splits)

lemma forEach_oncall_origin:
  assumes "e \<in> set (forEach_oncall cfg ocs m)"
  shows "e \<in> set m
       \<or> (\<exists>oc \<in> set ocs. \<exists>u s. oncall_user oc = Some u \<and> oncall_schedule oc = Some s
             \<and> schedule_id s \<notin> set (skipSchedules cfg)
             \<and> e = (user_id u, user_summary u))"
  using assms
proof (induction ocs arbitrary: m)
  case Nil
  then show ?case by simp
next
  case (Cons oc ocs)
  let ?m = "if oncall_user oc \<noteq> None \<and> oncall_schedule oc \<noteq> None
               \<and> schedule_id (the (oncall_schedule oc)) \<notin> set (skipSchedules cfg)
            then Map_set (user_id (the (oncall_user oc))) (user_summary (the (oncall_user oc))) m
            else m"
  from Cons.prems have "e \<in> set (forEach_oncall cfg ocs ?m)"
    by simp
  from Cons.IH [OF this] show ?case
  proof
    assume "e \<in> set ?m"
    then show ?thesis
      using set_Map_set [of "user_id (the (oncall_user oc))" "user_summary (the (oncall_user oc))" m]
      by (auto split: if_splits)
  next
    assume "\<exists>oc \<in> set ocs. \<exists>u s. oncall_user oc = Some u \<and> oncall_schedule oc = Some s
             \<and> schedule_id s \<notin> set (skipSchedules cfg)
             \<and> e = (user_id u, user_summary u)"
    then show ?thesis
      by auto
  qed
qed

lemma last_usable_in_result:
  assumes oc: "oc \<in> set ocs" "oncall_user oc = Some u" "oncall_schedule oc = Some s"
    "schedule_id s \<notin> set (skipSchedules cfg)"
  defines "recs \<equiv> filter (\<lambda>oc. \<exists>u' s. oncall_user oc = Some u' \<and> oncall_schedule oc = Some s
                          \<and> schedule_id s \<notin> set (skipSchedules cfg) \<and> user_id u' = user_id u) ocs"
  shows "recs \<noteq> []"
    and "(user_id u, user_summary (the (oncall_user (last recs)))) \<in> set (forEach_oncall cfg ocs [])"
proof -
  from oc have "oc \<in> set recs"
    by (simp add: recs_def)
  then show ne: "recs \<noteq> []"
    by auto
  have "map_of (forEach_oncall cfg ocs []) (user_id u)
          = (let r = recs in if r = [] then None
             else Some (user_summary (the (oncall_user (last r)))))"
    unfolding recs_def by (rule forEach_oncall_lookup)
  with ne have "map_of (forEach_oncall cfg ocs []) (user_id u)
          = Some (user_summary (the (oncall_user (last recs))))"
    by (simp only: Let_def if_False)
  then show "(user_id u, user_summary (the (oncall_user (last recs)))) \<in> set (forEach_oncall cfg ocs [])"
    by (rule map_of_SomeD)
qed

subsection \<open>What the on-call resolver returns\<close>

lemma getOnCallUsers_resolved:
  assumes "env (calls_of tr) (PagerDutyOncalls (pagerdutyApiToken cfg)) = Resolved b"
  shows "getOnCallUsers cfg env tr =
    (let users = Map_values (forEach_oncall cfg (case body_oncalls b of None \<Rightarrow> [] | Some xs \<Rightarrow> xs) [])
     in (Inr users,
         tr @ [Console_log ''Fetching on-call users from PagerDuty...'',
               Request (PagerDutyOncalls (pagerdutyApiToken cfg)) (Resolved b),
               Console_log (''Found on-call users: '' @ join '', '' users)]))"
  using assms
  by (simp add: getOnCallUsers_def getOnCallUsers_try_def try_catch_def await_def axios_def
      calls_of_append Let_def)

lemma getOnCallUsers_rejected:
  assumes "env (calls_of tr) (PagerDutyOncalls (pagerdutyApiToken cfg)) = Rejected m"
  shows "getOnCallUsers cfg env tr =
    (Inl (Error (''Failed to get on-call users: '' @ m)),
     tr @ [Console_log ''Fetching on-call users from PagerDuty...'',
           Request (PagerDutyOncalls (pagerdutyApiToken cfg)) (Rejected m)])"
  using assms
  by (simp add: getOnCallUsers_def getOnCallUsers_try_def try_catch_def await_def axios_def
      calls_of_append Let_def)

lemma getOnCallUsers_value:
  assumes "env (calls_of tr) (PagerDutyOncalls (pagerdutyApiToken cfg)) = Resolved b"
    and "body_oncalls b = Some oncalls"
  shows "fst (getOnCallUsers cfg env tr) = Inr (Map_values (forEach_oncall cfg oncalls []))"
  using assms by (simp add: getOnCallUsers_resolved Let_def)

subsection \<open>What the directory matcher returns\<close>

lemma new_calls_append: "new_calls tr (tr @ new) = calls_of new"
  by (simp add: new_calls_def calls_of_append)

lemma getSlackUserIdByName_run:
  "getSlackUserIdByName cfg env name tr =
     (let r = env (calls_of tr) (UsersList (slackApiToken cfg))
      in (Inr (resolves_to name r),
          tr @ Request (UsersList (slackApiToken cfg)) r #
            (case r of
               Rejected m \<Rightarrow>
                 [Console_error (''Failed to get Slack ID for '' @ name @ '': '' @ m)]
             | Resolved b \<Rightarrow>
                 if \<not> body_ok b
                 then [Console_error (''Failed to get Slack ID for '' @ name @ '': ''
                                        @ ''Failed to list users: '' @ template (body_error b))]
                 else (case body_members b of
                         Undefined \<Rightarrow>
                           [Console_error (''Failed to get Slack ID for '' @ name @ '': ''
                                             @ cannot_read_find ''undefined'')]
                       | Null \<Rightarrow>
                           [Console_error (''Failed to get Slack ID for '' @ name @ '': ''
                                             @ cannot_read_find ''null'')]
                       | Present members \<Rightarrow> []))))"
  by (simp add: getSlackUserIdByName_def getSlackUserIdByName_try_def try_catch_def await_def
      axios_def resolves_to_def Let_def disj_ac split: response.split option.split field.split)

lemma find_first:
  "\<forall>x \<in> set pre. \<not> P x \<Longrightarrow> P m \<Longrightarrow> find P (pre @ m # post) = Some m"
  by (induction pre) simp_all

subsection \<open>Awaiting and catching\<close>

lemma try_catch_Inl: "try_catch (Inl e, tr) h = h e tr"
  by (simp add: try_catch_def)

lemma try_catch_Inr: "try_catch (Inr x, tr) h = (Inr x, tr)"
  by (simp add: try_catch_def)

lemma await_Inl: "await (Inl e, tr) k = (Inl e, tr)"
  by (simp add: await_def)

lemma await_Inr: "await (Inr x, tr) k = k x tr"
  by (simp add: await_def)

lemma axios_Rejected:
  "env (calls_of tr) req = Rejected m \<Longrightarrow>
   axios env req tr = (Inl (Error m), tr @ [Request req (Rejected m)])"
  by (simp add: axios_def)

lemma axios_Resolved:
  "env (calls_of tr) req = Resolved b \<Longrightarrow>
   axios env req tr = (Inr b, tr @ [Request req (Resolved b)])"
  by (simp add: axios_def)

subsection \<open>Runs of the orchestrator\<close>

lemma updateSlackGroup_resolves: "fst (updateSlackGroup cfg env tr) = Inr ()"
proof (cases "updateSlackGroup_try cfg env tr")
  case (Pair res tr1)
  then show ?thesis
    by (cases res) (simp_all add: updateSlackGroup_def try_catch_def)
qed

lemma updateSlackGroup_lookup_error:
  assumes "getOnCallUsers cfg env (tr @ [Console_log ''Starting Slack group update...'']) = (Inl e, tr1)"
  shows "updateSlackGroup cfg env tr =
           (Inr (), tr1 @ [Console_error (''Failed to update Slack group: '' @ message e)])"
  using assms
  by (simp add: updateSlackGroup_def updateSlackGroup_try_def await_Inl try_catch_Inl)

lemma updateSlackGroup_no_users:
  assumes "getOnCallUsers cfg env (tr @ [Console_log ''Starting Slack group update...'']) = (Inr [], tr1)"
  shows "updateSlackGroup cfg env tr = (Inr (), tr1 @ [Console_log ''No on-call users found''])"
  using assms
  by (simp add: updateSlackGroup_def updateSlackGroup_try_def await_Inr try_catch_Inr)

lemma updateSlackGroup_post_error:
  assumes "getOnCallUsers cfg env (tr @ [Console_log ''Starting Slack group update...'']) = (Inr users, tr1)"
    and "users \<noteq> []"
    and "env (calls_of tr1) (ChatPostMessage (slackApiToken cfg) (slackChannelId cfg)
           (notification_text users)) = Rejected m"
  shows "updateSlackGroup cfg env tr =
           (Inr (), tr1 @ [Request (ChatPostMessage (slackApiToken cfg) (slackChannelId cfg)
                              (notification_text users)) (Rejected m),
                           Console_error (''Failed to update Slack group: '' @ m)])"
  using assms
  by (simp add: updateSlackGroup_def updateSlackGroup_try_def await_Inr await_Inl try_catch_Inl
      axios_Rejected)

lemma updateSlackGroup_update_error:
  assumes "getOnCallUsers cfg env (tr @ [Console_log ''Starting Slack group update...'']) = (Inr users, tr1)"
    and "users \<noteq> []"
    and "env (calls_of tr1) (ChatPostMessage (slackApiToken cfg) (slackChannelId cfg)
           (notification_text users)) = Resolved b"
    and "updateGroupMembers cfg env users
           (tr1 @ [Request (ChatPostMessage (slackApiToken cfg) (slackChannelId cfg)
                     (notification_text users)) (Resolved b)]) = (Inl e, tr2)"
  shows "updateSlackGroup cfg env tr =
           (Inr (), tr2 @ [Console_error (''Failed to update Slack group: '' @ message e)])"
  using assms
  by (simp add: updateSlackGroup_def updateSlackGroup_try_def await_Inr await_Inl try_catch_Inl
      axios_Resolved)

lemma updateSlackGroup_lookup_rejected:
  assumes "env (calls_of tr) (PagerDutyOncalls (pagerdutyApiToken cfg)) = Rejected m"
  shows "updateSlackGroup cfg env tr =
           (Inr (),
            tr @ [Console_log ''Starting Slack group update...'',
                  Console_log ''Fetching on-call users from PagerDuty...'',
                  Request (PagerDutyOncalls (pagerdutyApiToken cfg)) (Rejected m),
                  Console_error (''Failed to update Slack group: ''
                                   @ ''Failed to get on-call users: '' @ m)])"
proof -
  have "env (calls_of (tr @ [Console_log ''Starting Slack group update...'']))
          (PagerDutyOncalls (pagerdutyApiToken cfg)) = Rejected m"
    using assms by (simp add: calls_of_append)
  from updateSlackGroup_lookup_error
         [OF getOnCallUsers_rejected
               [where env = env and tr = "tr @ [Console_log ''Starting Slack group update...'']",
                OF this]]
  show ?thesis by simp
qed

lemma updateSlackGroup_empty:
  assumes "env (calls_of tr) (PagerDutyOncalls (pagerdutyApiToken cfg)) = Resolved b"
    and "forEach_oncall cfg (case body_oncalls b of None \<Rightarrow> [] | Some xs \<Rightarrow> xs) [] = []"
  shows "updateSlackGroup cfg env tr =
           (Inr (),
            tr @ [Console_log ''Starting Slack group update...'',
                  Console_log ''Fetching on-call users from PagerDuty...'',
                  Request (PagerDutyOncalls (pagerdutyApiToken cfg)) (Resolved b),
                  Console_log ''Found on-call users: '',
                  Console_log ''No on-call users found''])"
proof -
  have "env (calls_of (tr @ [Console_log ''Starting Slack group update...'']))
          (PagerDutyOncalls (pagerdutyApiToken cfg)) = Resolved b"
    using assms(1) by (simp add: calls_of_append)
  from getOnCallUsers_resolved
         [where env = env and tr = "tr @ [Console_log ''Starting Slack group update...'']",
          OF this]
  have "getOnCallUsers cfg env (tr @ [Console_log ''Starting Slack group update...'']) =
          (Inr [],
           tr @ [Console_log ''Starting Slack group update...'',
                 Console_log ''Fetching on-call users from PagerDuty...'',
                 Request (PagerDutyOncalls (pagerdutyApiToken cfg)) (Resolved b),
                 Console_log ''Found on-call users: ''])"
    by (simp add: assms(2) Map_values_def)
  from updateSlackGroup_no_users [OF this] show ?thesis
    by simp
qed

subsection \<open>Runs of the group membership updater\<close>

lemma quiet_Nil: "quiet []"
  by (simp add: quiet_def listings_def updates_def)

lemma quiet_append: "quiet (xs @ ys) \<longleftrightarrow> quiet xs \<and> quiet ys"
  by (auto simp: quiet_def listings_def updates_def calls_of_append)

lemma quiet_log: "quiet (Console_log s # xs) \<longleftrightarrow> quiet xs"
  and quiet_error: "quiet (Console_error s # xs) \<longleftrightarrow> quiet xs"
  by (simp_all add: quiet_def)

lemma quiet_request:
  "quiet (Request q r # xs) \<longleftrightarrow> \<not> is_UsersList q \<and> \<not> is_Update q \<and> quiet xs"
  by (auto simp: quiet_def listings_def updates_def)

lemma userInfo_loop_run:
  "\<exists>res new. userInfo_loop cfg env ids userNames tr = (res, tr @ new) \<and> quiet new"
proof (induction ids arbitrary: userNames tr)
  case Nil
  show ?case by (simp add: quiet_Nil)
next
  case (Cons userId rest)
  let ?q = "UsersInfo (slackApiToken cfg) userId"
  show ?case
  proof (cases "env (calls_of tr) ?q")
    case (Rejected m)
    then show ?thesis
      by (simp add: axios_Rejected await_Inl quiet_request quiet_Nil)
  next
    case (Resolved b)
    let ?names = "if body_ok b \<and> body_user b \<noteq> None
                  then userNames @ [user_real_name (the (body_user b))] else userNames"
    from Cons.IH [of ?names "tr @ [Request ?q (Resolved b)]"]
    obtain res new where
      run: "userInfo_loop cfg env rest ?names (tr @ [Request ?q (Resolved b)])
              = (res, (tr @ [Request ?q (Resolved b)]) @ new)"
      and q: "quiet new"
      by blast
    have "userInfo_loop cfg env (userId # rest) userNames tr
            = (res, tr @ (Request ?q (Resolved b) # new))"
      using Resolved run by (auto simp: axios_Resolved await_Inr split: if_splits)
    moreover have "quiet (Request ?q (Resolved b) # new)"
      using q by (simp add: quiet_request)
    ultimately show ?thesis
      by blast
  qed
qed

lemma getCurrentGroupMembers_run:
  "\<exists>names new. getCurrentGroupMembers cfg env tr = (Inr names, tr @ new) \<and> quiet new"
proof -
  let ?q = "UsergroupsUsersList (slackApiToken cfg) (slackGroupId cfg)"
  have "\<exists>res new. getCurrentGroupMembers_try cfg env tr = (res, tr @ new) \<and> quiet new"
  proof (cases "env (calls_of tr) ?q")
    case (Rejected m)
    then show ?thesis
      by (simp add: getCurrentGroupMembers_try_def axios_Rejected await_Inl quiet_request quiet_Nil)
  next
    case (Resolved b)
    show ?thesis
    proof (cases "body_ok b")
      case False
      with Resolved show ?thesis
        by (simp add: getCurrentGroupMembers_try_def axios_Resolved await_Inr quiet_request quiet_Nil)
    next
      case True
      let ?users = "case body_users b of None \<Rightarrow> [] | Some xs \<Rightarrow> xs"
      from userInfo_loop_run [of cfg env ?users "[]" "tr @ [Request ?q (Resolved b)]"]
      obtain res new where
        run: "userInfo_loop cfg env ?users [] (tr @ [Request ?q (Resolved b)])
                = (res, (tr @ [Request ?q (Resolved b)]) @ new)"
        and q: "quiet new"
        by blast
      have "getCurrentGroupMembers_try cfg env tr = (res, tr @ (Request ?q (Resolved b) # new))"
        using Resolved True run
        by (simp add: getCurrentGroupMembers_try_def axios_Resolved await_Inr)
      moreover have "quiet (Request ?q (Resolved b) # new)"
        using q by (simp add: quiet_request)
      ultimately show ?thesis
        by blast
    qed
  qed
  then obtain res new where
    run: "getCurrentGroupMembers_try cfg env tr = (res, tr @ new)" and q: "quiet new"
    by blast
  show ?thesis
  proof (cases res)
    case (Inl e)
    with run have "getCurrentGroupMembers cfg env tr =
        (Inr [], tr @ (new @ [Console_error (''Failed to get current group members: '' @ message e)]))"
      by (simp add: getCurrentGroupMembers_def try_catch_Inl)
    moreover have "quiet (new @ [Console_error (''Failed to get current group members: '' @ message e)])"
      using q by (simp add: quiet_append quiet_error quiet_Nil)
    ultimately show ?thesis
      by blast
  next
    case (Inr names)
    with run q show ?thesis
      by (auto simp: getCurrentGroupMembers_def try_catch_Inr)
  qed
qed

lemma listings_Nil: "listings [] = []"
  by (simp add: listings_def)

lemma updates_Nil: "updates [] = []"
  by (simp add: updates_def)

lemma listings_append: "listings (xs @ ys) = listings xs @ listings ys"
  by (simp add: listings_def)

lemma updates_append: "updates (xs @ ys) = updates xs @ updates ys"
  by (simp add: updates_def)

lemma nonempty_ids_Cons:
  "nonempty_ids (name # names) (r # rs) =
     (if truthy (resolves_to name r) then the (resolves_to name r) # nonempty_ids names rs
      else nonempty_ids names rs)"
  by (cases "resolves_to name r") (simp_all add: nonempty_ids_def)

lemma getSlackUserIdByName_calls:
  "\<exists>log. getSlackUserIdByName cfg env name tr =
           (Inr (resolves_to name (env (calls_of tr) (UsersList (slackApiToken cfg)))),
            tr @ Request (UsersList (slackApiToken cfg))
                   (env (calls_of tr) (UsersList (slackApiToken cfg))) # log)
         \<and> calls_of log = []"
proof -
  let ?r = "env (calls_of tr) (UsersList (slackApiToken cfg))"
  let ?log = "case ?r of
               Rejected m \<Rightarrow>
                 [Console_error (''Failed to get Slack ID for '' @ name @ '': '' @ m)]
             | Resolved b \<Rightarrow>
                 if \<not> body_ok b
                 then [Console_error (''Failed to get Slack ID for '' @ name @ '': ''
                                        @ ''Failed to list users: '' @ template (body_error b))]
                 else (case body_members b of
                         Undefined \<Rightarrow>
                           [Console_error (''Failed to get Slack ID for '' @ name @ '': ''
                                             @ cannot_read_find ''undefined'')]
                       | Null \<Rightarrow>
                           [Console_error (''Failed to get Slack ID for '' @ name @ '': ''
                                             @ cannot_read_find ''null'')]
                       | Present members \<Rightarrow> [])"
  have "getSlackUserIdByName cfg env name tr =
          (Inr (resolves_to name ?r), tr @ Request (UsersList (slackApiToken cfg)) ?r # ?log)"
    unfolding getSlackUserIdByName_run Let_def ..
  moreover have "calls_of ?log = []"
    by (simp split: response.split field.split)
  ultimately show ?thesis
    by blast
qed

lemma lookup_loop_run:
  "\<exists>new. lookup_loop cfg env names ids tr =
           (Inr (ids @ nonempty_ids names (listings (calls_of new))), tr @ new)
         \<and> length (listings (calls_of new)) = length names
         \<and> updates (calls_of new) = []"
proof (induction names arbitrary: ids tr)
  case Nil
  show ?case
    by (simp add: nonempty_ids_def listings_Nil updates_Nil)
next
  case (Cons name rest)
  let ?q = "UsersList (slackApiToken cfg)"
  let ?r = "env (calls_of tr) ?q"
  let ?sid = "resolves_to name ?r"
  from getSlackUserIdByName_calls [of cfg env name tr]
  obtain log where
    one: "getSlackUserIdByName cfg env name tr = (Inr ?sid, tr @ Request ?q ?r # log)"
    and log: "calls_of log = []"
    by blast
  let ?line = "if truthy ?sid
               then Console_log (''Found Slack ID for '' @ name @ '': '' @ the ?sid)
               else Console_log (''Could not find Slack ID for '' @ name)"
  let ?ids = "if truthy ?sid then ids @ [the ?sid] else ids"
  let ?tr = "tr @ Request ?q ?r # log @ [?line]"
  from Cons.IH [of ?ids ?tr]
  obtain new where
    run: "lookup_loop cfg env rest ?ids ?tr
            = (Inr (?ids @ nonempty_ids rest (listings (calls_of new))), ?tr @ new)"
    and len: "length (listings (calls_of new)) = length rest"
    and upd: "updates (calls_of new) = []"
    by blast
  let ?new = "Request ?q ?r # log @ [?line] @ new"
  have step: "lookup_loop cfg env (name # rest) ids tr = lookup_loop cfg env rest ?ids ?tr"
    unfolding lookup_loop.simps one await_Inr by simp
  have calls: "calls_of ?new = (?q, ?r) # calls_of new"
    using log by (simp add: calls_of_append)
  have lst: "listings (calls_of ?new) = ?r # listings (calls_of new)"
    unfolding calls by (simp add: listings_def)
  have "lookup_loop cfg env (name # rest) ids tr
          = (Inr (ids @ nonempty_ids (name # rest) (listings (calls_of ?new))), tr @ ?new)"
    unfolding step run lst nonempty_ids_Cons by simp
  moreover have "length (listings (calls_of ?new)) = length (name # rest)"
    unfolding lst using len by simp
  moreover have "updates (calls_of ?new) = []"
    unfolding calls using upd by (simp add: updates_def)
  ultimately show ?case
    by blast
qed

lemma updateGroupMembers_run:
  "\<exists>new. snd (updateGroupMembers cfg env users tr) = tr @ new
         \<and> length (listings (calls_of new)) = length users
         \<and> (if nonempty_ids users (listings (calls_of new)) = []
              then fst (updateGroupMembers cfg env users tr) = Inr ()
                   \<and> updates (calls_of new) = []
              else \<exists>r. updates (calls_of new) =
                         [(UsergroupsUsersUpdate (slackApiToken cfg) (slackGroupId cfg)
                             (join '','' (nonempty_ids users (listings (calls_of new)))), r)]
                       \<and> fst (updateGroupMembers cfg env users tr) =
                           (case r of
                              Rejected m \<Rightarrow> Inl (Error (''Failed to update group members: '' @ m))
                            | Resolved b \<Rightarrow> Inr ()))"
proof -
  let ?tr0 = "tr @ [Console_log ''Current group members:'']"
  from getCurrentGroupMembers_run [of cfg env ?tr0]
  obtain names1 new1 where
    g1: "getCurrentGroupMembers cfg env ?tr0 = (Inr names1, ?tr0 @ new1)" and q1: "quiet new1"
    by blast
  let ?pre = "Console_log ''Current group members:'' # new1
                @ [Console_log (or_None (join '', '' names1)),
                   Console_log (newline @ ''Looking up Slack IDs for users...'')]"
  have tr1: "(?tr0 @ new1) @ [Console_log (or_None (join '', '' names1)),
                   Console_log (newline @ ''Looking up Slack IDs for users...'')] = tr @ ?pre"
    by simp
  from lookup_loop_run [of cfg env users "[]" "tr @ ?pre"]
  obtain new2 where
    l2: "lookup_loop cfg env users [] (tr @ ?pre)
           = (Inr (nonempty_ids users (listings (calls_of new2))), (tr @ ?pre) @ new2)"
    and len: "length (listings (calls_of new2)) = length users"
    and u2: "updates (calls_of new2) = []"
    by auto
  let ?ids = "nonempty_ids users (listings (calls_of new2))"
  have pre_l: "listings (calls_of ?pre) = []" and pre_u: "updates (calls_of ?pre) = []"
    using q1 by (simp_all add: quiet_def calls_of_append listings_append updates_append
        listings_Nil updates_Nil)
  have try_eq: "updateGroupMembers_try cfg env users tr =
      (if ?ids = []
       then (Inr (), (tr @ ?pre) @ new2
               @ [Console_log ''No valid Slack user IDs found, skipping update''])
       else
         await (axios env (UsergroupsUsersUpdate (slackApiToken cfg) (slackGroupId cfg)
                             (join '','' ?ids))
                  ((tr @ ?pre) @ new2
                     @ [Console_log (newline @ ''Updating Slack user group with: ''
                                       @ join '', '' users)]))
           (\<lambda>_ tr3.
              await (getCurrentGroupMembers cfg env
                       (tr3 @ [Console_log (newline @ ''New group members:'')]))
                (\<lambda>newMembers tr4.
                   (Inr (), tr4 @ [Console_log (or_None (join '', '' newMembers)),
                                   Console_log ''Successfully updated Slack group members'']))))"
    unfolding updateGroupMembers_try_def g1 await_Inr tr1 l2 by simp
  show ?thesis
  proof (cases "?ids = []")
    case True
    let ?new = "?pre @ new2 @ [Console_log ''No valid Slack user IDs found, skipping update'']"
    have run: "updateGroupMembers cfg env users tr = (Inr (), tr @ ?new)"
      unfolding updateGroupMembers_def try_eq using True by (simp add: try_catch_Inr)
    have l: "listings (calls_of ?new) = listings (calls_of new2)"
      using pre_l by (simp add: calls_of_append listings_append listings_Nil)
    have u: "updates (calls_of ?new) = []"
      using pre_u u2 by (simp add: calls_of_append updates_append updates_Nil)
    have "snd (updateGroupMembers cfg env users tr) = tr @ ?new"
      unfolding run by simp
    moreover have "length (listings (calls_of ?new)) = length users"
      unfolding l by (rule len)
    moreover have "nonempty_ids users (listings (calls_of ?new)) = []"
      unfolding l by (rule True)
    moreover have "fst (updateGroupMembers cfg env users tr) = Inr ()"
      unfolding run by simp
    ultimately show ?thesis
      using u by (intro exI [of _ ?new]) (simp only: if_True simp_thms)
  next
    case False
    let ?q = "UsergroupsUsersUpdate (slackApiToken cfg) (slackGroupId cfg) (join '','' ?ids)"
    let ?mid = "?pre @ new2 @ [Console_log (newline @ ''Updating Slack user group with: ''
                                       @ join '', '' users)]"
    have mid: "(tr @ ?pre) @ new2 @ [Console_log (newline @ ''Updating Slack user group with: ''
                                       @ join '', '' users)] = tr @ ?mid"
      by simp
    let ?r = "env (calls_of (tr @ ?mid)) ?q"
    have mid_l: "listings (calls_of ?mid) = listings (calls_of new2)"
      using pre_l by (simp add: calls_of_append listings_append listings_Nil)
    have mid_u: "updates (calls_of ?mid) = []"
      using pre_u u2 by (simp add: calls_of_append updates_append updates_Nil)
    show ?thesis
    proof (cases ?r)
      case (Rejected m)
      let ?new = "?mid @ [Request ?q (Rejected m)]"
      have run: "updateGroupMembers cfg env users tr =
                   (Inl (Error (''Failed to update group members: '' @ m)), tr @ ?new)"
        unfolding updateGroupMembers_def try_eq mid using False Rejected
        by (simp add: axios_Rejected await_Inl try_catch_Inl)
      have l: "listings (calls_of ?new) = listings (calls_of new2)"
        using mid_l by (simp add: calls_of_append listings_append listings_def)
      have u: "updates (calls_of ?new) = [(?q, Rejected m)]"
        using mid_u by (simp add: calls_of_append updates_append updates_def)
      have "snd (updateGroupMembers cfg env users tr) = tr @ ?new"
        unfolding run by simp
      moreover have "length (listings (calls_of ?new)) = length users"
        unfolding l by (rule len)
      moreover have "nonempty_ids users (listings (calls_of ?new)) \<noteq> []"
        unfolding l by (rule False)
      moreover have "updates (calls_of ?new) =
          [(UsergroupsUsersUpdate (slackApiToken cfg) (slackGroupId cfg)
              (join '','' (nonempty_ids users (listings (calls_of ?new)))), Rejected m)]"
        unfolding l by (rule u)
      moreover have "fst (updateGroupMembers cfg env users tr) =
          (case Rejected m of
             Rejected m \<Rightarrow> Inl (Error (''Failed to update group members: '' @ m))
           | Resolved b \<Rightarrow> Inr ())"
        unfolding run by simp
      ultimately show ?thesis
        by (intro exI [of _ ?new]) (simp only: if_False simp_thms, blast)
    next
      case (Resolved b)
      let ?tr3 = "tr @ ?mid @ [Request ?q (Resolved b), Console_log (newline @ ''New group members:'')]"
      from getCurrentGroupMembers_run [of cfg env ?tr3]
      obtain names2 new3 where
        g2: "getCurrentGroupMembers cfg env ?tr3 = (Inr names2, ?tr3 @ new3)" and q3: "quiet new3"
        by blast
      let ?new = "?mid @ [Request ?q (Resolved b), Console_log (newline @ ''New group members:'')]
                    @ new3 @ [Console_log (or_None (join '', '' names2)),
                              Console_log ''Successfully updated Slack group members'']"
      have tr3: "((tr @ ?mid) @ [Request ?q (Resolved b)])
                   @ [Console_log (newline @ ''New group members:'')] = ?tr3"
        by simp
      have run: "updateGroupMembers cfg env users tr = (Inr (), tr @ ?new)"
        unfolding updateGroupMembers_def try_eq mid using False Resolved
        by (simp only: if_False axios_Resolved await_Inr tr3 g2 try_catch_Inr) simp
      have l: "listings (calls_of ?new) = listings (calls_of new2)"
        using mid_l q3 by (simp add: quiet_def calls_of_append listings_append listings_def)
      have u: "updates (calls_of ?new) = [(?q, Resolved b)]"
        using mid_u q3 by (simp add: quiet_def calls_of_append updates_append updates_def)
      have "snd (updateGroupMembers cfg env users tr) = tr @ ?new"
        unfolding run by simp
      moreover have "length (listings (calls_of ?new)) = length users"
        unfolding l by (rule len)
      moreover have "nonempty_ids users (listings (calls_of ?new)) \<noteq> []"
        unfolding l by (rule False)
      moreover have "updates (calls_of ?new) =
          [(UsergroupsUsersUpdate (slackApiToken cfg) (slackGroupId cfg)
              (join '','' (nonempty_ids users (listings (calls_of ?new)))), Resolved b)]"
        unfolding l by (rule u)
      moreover have "fst (updateGroupMembers cfg env users tr) =
          (case Resolved b of
             Rejected m \<Rightarrow> Inl (Error (''Failed to update group members: '' @ m))
           | Resolved b \<Rightarrow> Inr ())"
        unfolding run by simp
      ultimately show ?thesis
        by (intro exI [of _ ?new]) (simp only: if_False simp_thms, blast)
    qed
  qed
qed

lemma updateGroupMembers_overwrite_truthy:
  "(let calls = new_calls tr (snd (updateGroupMembers cfg env users tr));
        ids = nonempty_ids users (listings calls)
    in length (listings calls) = length users
       \<and> map fst (updates calls)
           = (if ids = [] then []
              else [UsergroupsUsersUpdate (slackApiToken cfg) (slackGroupId cfg)
                      (join '','' ids)]))"
proof -
  from updateGroupMembers_run [of cfg env users tr]
  obtain new where
    tr': "snd (updateGroupMembers cfg env users tr) = tr @ new"
    and len: "length (listings (calls_of new)) = length users"
    and upd: "if nonempty_ids users (listings (calls_of new)) = []
              then fst (updateGroupMembers cfg env users tr) = Inr ()
                   \<and> updates (calls_of new) = []
              else \<exists>r. updates (calls_of new) =
                         [(UsergroupsUsersUpdate (slackApiToken cfg) (slackGroupId cfg)
                             (join '','' (nonempty_ids users (listings (calls_of new)))), r)]
                       \<and> fst (updateGroupMembers cfg env users tr) =
                           (case r of
                              Rejected m \<Rightarrow> Inl (Error (''Failed to update group members: '' @ m))
                            | Resolved b \<Rightarrow> Inr ())"
    by blast
  have calls: "new_calls tr (snd (updateGroupMembers cfg env users tr)) = calls_of new"
    unfolding tr' by (rule new_calls_append)
  show ?thesis
  proof (cases "nonempty_ids users (listings (calls_of new)) = []")
    case True
    with upd len show ?thesis
      unfolding calls Let_def by simp
  next
    case False
    with upd len show ?thesis
      unfolding calls Let_def by auto
  qed
qed

lemma resolves_to_issued:
  assumes "resolves_to name r = Some i"
  shows "\<exists>b members m. r = Resolved b \<and> body_members b = Present members
           \<and> m \<in> set members \<and> i = member_id m"
proof (cases r)
  case (Rejected msg)
  with assms show ?thesis
    by (simp add: resolves_to_def)
next
  case (Resolved b)
  let ?P = "\<lambda>m. member_name m = name \<or> member_real_name m = name \<or> profile_real_name m = name"
  from assms Resolved obtain members m where
    ms: "body_members b = Present members" and f: "find ?P members = Some m" and i: "i = member_id m"
    by (auto simp: resolves_to_def split: if_splits field.splits)
  from f have "m \<in> set members"
    by (auto simp: find_Some_iff)
  with Resolved ms i show ?thesis
    by blast
qed

lemma nonempty_ids_all:
  assumes "\<forall>r \<in> set rs. \<forall>b members. r = Resolved b \<longrightarrow> body_members b = Present members
             \<longrightarrow> (\<forall>m \<in> set members. member_id m \<noteq> [])"
  shows "nonempty_ids names rs = resolved_ids names rs"
proof -
  have "i \<noteq> []" if "i \<in> set (resolved_ids names rs)" for i
    using that assms
  proof (induction names rs rule: resolved_ids.induct)
    case (1 name names r rs)
    show ?case
    proof (cases "resolves_to name r")
      case None
      with 1 show ?thesis by simp
    next
      case (Some j)
      from resolves_to_issued [OF Some] "1.prems"(2) have "j \<noteq> []"
        by auto
      with 1 Some show ?thesis by auto
    qed
  qed simp_all
  then show ?thesis
    by (simp add: nonempty_ids_def filter_id_conv)
qed

subsection \<open>Unfolding a run on the sample collaborators\<close>

lemmas run_defs =
  updateSlackGroup_def updateSlackGroup_try_def updateGroupMembers_def updateGroupMembers_try_def
  getSlackUserIdByName_def getSlackUserIdByName_try_def getCurrentGroupMembers_def
  getCurrentGroupMembers_try_def getOnCallUsers_def getOnCallUsers_try_def
  axios_def await_def try_catch_def Map_values_def or_None_def

lemmas sample_defs =
  cfg0_def absent_def assignment_def entry_def oncalls_body_def ok_body_def users_body_def
  user_body_def members_body_def error_body_def services_def directory0_def healthy_def

lemmas trace_defs = new_calls_def listings_def updates_def posts_def nonempty_ids_def resolves_to_def

section \<open>Properties of the on-call resolver\<close>

text \<open>
  Claim C1. A record whose schedule id is in the exclusion set contributes nothing to
  the result of \<open>getOnCallUsers\<close>: the provider may leave all such records out of the
  payload and the function returns the same list, and every name of the result is the
  display name of a record that is not excluded. A user named by a record with a
  schedule that is not excluded still appears (with a display name taken from such a
  record), whatever excluded records name the same user: the filter works record by
  record, before the map removes duplicates.
\<close>

theorem getOnCallUsers_excluded_schedules:
  assumes "env (calls_of tr) (PagerDutyOncalls (pagerdutyApiToken cfg)) = Resolved b"
    and "body_oncalls b = Some oncalls"
    and "env' (calls_of tr') (PagerDutyOncalls (pagerdutyApiToken cfg)) = Resolved b'"
    and "body_oncalls b' =
           Some (filter (\<lambda>oc. \<not> (\<exists>s. oncall_schedule oc = Some s
                                  \<and> schedule_id s \<in> set (skipSchedules cfg))) oncalls)"
  shows "(\<exists>names. fst (getOnCallUsers cfg env tr) = Inr names
            \<and> fst (getOnCallUsers cfg env' tr') = Inr names
            \<and> (\<forall>n \<in> set names. \<exists>oc \<in> set oncalls. \<exists>u s.
                  oncall_user oc = Some u \<and> oncall_schedule oc = Some s
                  \<and> schedule_id s \<notin> set (skipSchedules cfg) \<and> user_summary u = n)
            \<and> (\<forall>oc \<in> set oncalls. \<forall>u s.
                  oncall_user oc = Some u \<and> oncall_schedule oc = Some s
                  \<and> schedule_id s \<notin> set (skipSchedules cfg)
                  \<longrightarrow> (\<exists>oc' \<in> set oncalls. \<exists>u' s'.
                         oncall_user oc' = Some u' \<and> oncall_schedule oc' = Some s'
                         \<and> schedule_id s' \<notin> set (skipSchedules cfg)
                         \<and> user_id u' = user_id u \<and> user_summary u' \<in> set names)))"
proof -
  let ?names = "Map_values (forEach_oncall cfg oncalls [])"
  have 1: "fst (getOnCallUsers cfg env tr) = Inr ?names"
    using assms(1,2) by (simp add: getOnCallUsers_resolved Let_def)
  have 2: "fst (getOnCallUsers cfg env' tr') = Inr ?names"
    using getOnCallUsers_value [where env = env' and tr = tr', OF assms(3,4)] by (simp only: forEach_oncall_filter)
  have 3: "\<exists>oc' \<in> set oncalls. \<exists>u' s'.
             oncall_user oc' = Some u' \<and> oncall_schedule oc' = Some s'
             \<and> schedule_id s' \<notin> set (skipSchedules cfg)
             \<and> user_id u' = user_id u \<and> user_summary u' \<in> set ?names"
    if oc: "oc \<in> set oncalls" "oncall_user oc = Some u" "oncall_schedule oc = Some s"
      "schedule_id s \<notin> set (skipSchedules cfg)" for oc u s
  proof -
    let ?recs = "filter (\<lambda>oc. \<exists>u' s. oncall_user oc = Some u' \<and> oncall_schedule oc = Some s
                          \<and> schedule_id s \<notin> set (skipSchedules cfg) \<and> user_id u' = user_id u) oncalls"
    from last_usable_in_result [OF oc]
    have ne: "?recs \<noteq> []"
      and mem: "(user_id u, user_summary (the (oncall_user (last ?recs)))) \<in> set (forEach_oncall cfg oncalls [])"
      by simp_all
    from ne have "last ?recs \<in> set ?recs"
      by (rule last_in_set)
    then obtain u' s' where l: "last ?recs \<in> set oncalls" "oncall_user (last ?recs) = Some u'"
      "oncall_schedule (last ?recs) = Some s'" "schedule_id s' \<notin> set (skipSchedules cfg)"
      "user_id u' = user_id u"
      by auto
    from mem l(2) have "user_summary u' \<in> set ?names"
      by (force simp: Map_values_def)
    with l show ?thesis
      by blast
  qed
  have 4: "\<exists>oc \<in> set oncalls. \<exists>u s.
             oncall_user oc = Some u \<and> oncall_schedule oc = Some s
             \<and> schedule_id s \<notin> set (skipSchedules cfg) \<and> user_summary u = n"
    if "n \<in> set ?names" for n
  proof -
    from that obtain k where "(k, n) \<in> set (forEach_oncall cfg oncalls [])"
      by (auto simp: Map_values_def)
    from forEach_oncall_origin [OF this] show ?thesis
      by auto
  qed
  from 1 2 3 4 show ?thesis
    by blast
qed

theorem getOnCallUsers_excluded_schedules_witness:
  "fst (getOnCallUsers cfg0
          (healthy (Resolved (oncalls_body
             [assignment ''S1'' ''U1'' ''Alice'', assignment ''S2'' ''U1'' ''Alice''])))
          []) = Inr [''Alice'']
   \<and> fst (getOnCallUsers cfg0
          (healthy (Resolved (oncalls_body [assignment ''S2'' ''U1'' ''Alice''])))
          []) = Inr [''Alice'']"
proof -
  let ?full = "[assignment ''S1'' ''U1'' ''Alice'', assignment ''S2'' ''U1'' ''Alice'']"
  let ?kept = "[assignment ''S2'' ''U1'' ''Alice'']"
  have 1: "healthy (Resolved (oncalls_body ?full)) (calls_of [])
             (PagerDutyOncalls (pagerdutyApiToken cfg0)) = Resolved (oncalls_body ?full)"
    by (simp add: healthy_def services_def)
  have 2: "body_oncalls (oncalls_body ?full) = Some ?full"
    by (simp add: oncalls_body_def absent_def)
  have 3: "healthy (Resolved (oncalls_body ?kept)) (calls_of [])
             (PagerDutyOncalls (pagerdutyApiToken cfg0)) = Resolved (oncalls_body ?kept)"
    by (simp add: healthy_def services_def)
  have 4: "body_oncalls (oncalls_body ?kept) =
             Some (filter (\<lambda>oc. \<not> (\<exists>s. oncall_schedule oc = Some s
                                    \<and> schedule_id s \<in> set (skipSchedules cfg0))) ?full)"
    by (simp add: oncalls_body_def absent_def assignment_def cfg0_def)
  have 5: "body_oncalls (oncalls_body ?kept) = Some ?kept"
    by (simp add: oncalls_body_def absent_def)
  from getOnCallUsers_excluded_schedules
         [where env = "healthy (Resolved (oncalls_body ?full))" and tr = "[]"
            and env' = "healthy (Resolved (oncalls_body ?kept))" and tr' = "[]", OF 1 2 3 4]
  obtain names where
    n: "fst (getOnCallUsers cfg0 (healthy (Resolved (oncalls_body ?full))) []) = Inr names"
       "fst (getOnCallUsers cfg0 (healthy (Resolved (oncalls_body ?kept))) []) = Inr names"
    by blast
  have "fst (getOnCallUsers cfg0 (healthy (Resolved (oncalls_body ?kept))) []) = Inr [''Alice'']"
    using getOnCallUsers_value
            [where env = "healthy (Resolved (oncalls_body ?kept))" and tr = "[]", OF 3 5]
    by (simp add: assignment_def cfg0_def Map_values_def)
  with n show ?thesis
    by simp
qed

text \<open>
  Claim C2. The records that are not skipped and share one user id produce exactly one
  entry of the map from which \<open>getOnCallUsers\<close> returns the values, and the display
  name kept in that entry is the one of the last such record of the payload.
\<close>

theorem getOnCallUsers_one_entry_per_user:
  assumes "env (calls_of tr) (PagerDutyOncalls (pagerdutyApiToken cfg)) = Resolved b"
    and "body_oncalls b = Some oncalls"
    and "recs = filter (\<lambda>oc. \<exists>u s. oncall_user oc = Some u \<and> oncall_schedule oc = Some s
                          \<and> schedule_id s \<notin> set (skipSchedules cfg) \<and> user_id u = uid) oncalls"
    and "recs \<noteq> []"
  shows "fst (getOnCallUsers cfg env tr) = Inr (Map_values (forEach_oncall cfg oncalls []))
       \<and> distinct (map fst (forEach_oncall cfg oncalls []))
       \<and> length (filter (\<lambda>e. fst e = uid) (forEach_oncall cfg oncalls [])) = 1
       \<and> filter (\<lambda>e. fst e = uid) (forEach_oncall cfg oncalls [])
           = [(uid, user_summary (the (oncall_user (last recs))))]"
proof -
  let ?m = "forEach_oncall cfg oncalls []"
  have 1: "fst (getOnCallUsers cfg env tr) = Inr (Map_values ?m)"
    using assms(1,2) by (simp add: getOnCallUsers_resolved Let_def)
  have 2: "distinct (map fst ?m)"
    by (rule forEach_oncall_distinct) simp
  have "map_of ?m uid = (let r = recs in if r = [] then None
             else Some (user_summary (the (oncall_user (last r)))))"
    unfolding assms(3) by (rule forEach_oncall_lookup)
  with assms(4) have "map_of ?m uid = Some (user_summary (the (oncall_user (last recs))))"
    by (simp only: Let_def if_False)
  then have mem: "(uid, user_summary (the (oncall_user (last recs)))) \<in> set ?m"
    by (rule map_of_SomeD)
  have 3: "length (filter (\<lambda>e. fst e = uid) ?m) = 1"
    using 2 mem by (rule one_entry_per_key)
  have "(uid, user_summary (the (oncall_user (last recs)))) \<in> set (filter (\<lambda>e. fst e = uid) ?m)"
    using mem by simp
  with 3 have 4: "filter (\<lambda>e. fst e = uid) ?m = [(uid, user_summary (the (oncall_user (last recs))))]"
    by (cases "filter (\<lambda>e. fst e = uid) ?m") auto
  from 1 2 3 4 show ?thesis
    by blast
qed

theorem getOnCallUsers_one_entry_per_user_witness:
  "fst (getOnCallUsers cfg0
          (healthy (Resolved (oncalls_body
             [assignment ''S2'' ''U1'' ''Alice'', assignment ''S3'' ''U2'' ''Bob'',
              assignment ''S1'' ''U1'' ''Alice (skipped)'', assignment ''S4'' ''U1'' ''Alice S.''])))
          []) = Inr [''Alice S.'', ''Bob'']"
proof -
  let ?ocs = "[assignment ''S2'' ''U1'' ''Alice'', assignment ''S3'' ''U2'' ''Bob'',
               assignment ''S1'' ''U1'' ''Alice (skipped)'', assignment ''S4'' ''U1'' ''Alice S.'']"
  let ?recs = "[assignment ''S2'' ''U1'' ''Alice'', assignment ''S4'' ''U1'' ''Alice S.'']"
  have 1: "healthy (Resolved (oncalls_body ?ocs)) (calls_of [])
             (PagerDutyOncalls (pagerdutyApiToken cfg0)) = Resolved (oncalls_body ?ocs)"
    by (simp add: healthy_def services_def)
  have 2: "body_oncalls (oncalls_body ?ocs) = Some ?ocs"
    by (simp add: oncalls_body_def absent_def)
  have 3: "?recs = filter (\<lambda>oc. \<exists>u s. oncall_user oc = Some u \<and> oncall_schedule oc = Some s
                          \<and> schedule_id s \<notin> set (skipSchedules cfg0) \<and> user_id u = ''U1'') ?ocs"
    by (simp add: assignment_def cfg0_def)
  have 4: "?recs \<noteq> []"
    by simp
  from getOnCallUsers_one_entry_per_user
         [where env = "healthy (Resolved (oncalls_body ?ocs))" and tr = "[]", OF 1 2 3 4]
  have "fst (getOnCallUsers cfg0 (healthy (Resolved (oncalls_body ?ocs))) [])
          = Inr (Map_values (forEach_oncall cfg0 ?ocs []))"
    by blast
  then show ?thesis
    by (simp add: assignment_def cfg0_def Map_values_def)
qed

section \<open>Properties of the directory matcher\<close>

text \<open>
  Claim C3. On a directory listing that is ok, \<open>getSlackUserIdByName\<close> returns the
  identifier of the first entry, in directory order, one of whose three name fields
  (\<^verbatim>\<open>name\<close>, \<^verbatim>\<open>real_name\<close>, \<^verbatim>\<open>profile.real_name\<close>) equals the input, the whole
  string and case-sensitively; it returns \<^verbatim>\<open>null\<close> when no entry has such a field.
\<close>

theorem getSlackUserIdByName_first_match:
  assumes "env (calls_of tr) (UsersList (slackApiToken cfg)) = Resolved b"
    and "body_ok b"
    and "body_members b = Present members"
  shows "(\<forall>pre m post.
            members = pre @ m # post
            \<and> (\<forall>m' \<in> set pre. member_name m' \<noteq> name \<and> member_real_name m' \<noteq> name
                    \<and> profile_real_name m' \<noteq> name)
            \<and> (member_name m = name \<or> member_real_name m = name \<or> profile_real_name m = name)
            \<longrightarrow> fst (getSlackUserIdByName cfg env name tr) = Inr (Some (member_id m)))
       \<and> ((\<forall>m \<in> set members. member_name m \<noteq> name \<and> member_real_name m \<noteq> name
                    \<and> profile_real_name m \<noteq> name)
            \<longrightarrow> fst (getSlackUserIdByName cfg env name tr) = Inr None)"
proof -
  let ?P = "\<lambda>m. member_name m = name \<or> member_real_name m = name \<or> profile_real_name m = name"
  have res: "fst (getSlackUserIdByName cfg env name tr) = Inr (map_option member_id (find ?P members))"
    using assms by (simp add: getSlackUserIdByName_run resolves_to_def)
  have "find ?P members = Some m"
    if "members = pre @ m # post" "\<forall>m' \<in> set pre. \<not> ?P m'" "?P m" for pre m post
    using that by (simp only: find_first)
  moreover have "find ?P members = None" if "\<forall>m \<in> set members. \<not> ?P m"
    using that by (simp only: find_None_iff) blast
  ultimately show ?thesis
    unfolding res by simp
qed

theorem getSlackUserIdByName_first_match_witness:
  "fst (getSlackUserIdByName cfg0 (healthy (Rejected ''unused'')) ''Alice'' []) = Inr (Some ''U11'')
   \<and> fst (getSlackUserIdByName cfg0 (healthy (Rejected ''unused'')) ''ALICE'' []) = Inr None"
proof -
  let ?env = "healthy (Rejected ''unused'')"
  have 1: "?env (calls_of []) (UsersList (slackApiToken cfg0)) = Resolved (members_body directory0)"
    by (simp add: healthy_def services_def)
  have 2: "body_ok (members_body directory0)"
    by (simp add: members_body_def absent_def)
  have 3: "body_members (members_body directory0) = Present directory0"
    by (simp add: members_body_def absent_def)
  note first_match = getSlackUserIdByName_first_match [where env = ?env and tr = "[]", OF 1 2 3]
  have "fst (getSlackUserIdByName cfg0 ?env ''Alice'' []) = Inr (Some ''U11'')"
    using first_match [where name = "''Alice''", THEN conjunct1, rule_format,
        of "[entry ''U10'' ''bob'' ''Bob Jones'' ''Robert Jones'']"
           "entry ''U11'' ''alice'' ''Alice'' ''Alice Smith''"
           "[entry ''U12'' ''al'' ''Alice Smith'' ''Alice'']"]
    by (simp add: directory0_def entry_def)
  moreover have "fst (getSlackUserIdByName cfg0 ?env ''ALICE'' []) = Inr None"
    using first_match [where name = "''ALICE''", THEN conjunct2]
    by (simp add: directory0_def entry_def)
  ultimately show ?thesis
    by simp
qed

text \<open>
  Claim C4. When the directory listing fails (\<^verbatim>\<open>axios\<close> rejects) or its response is not
  ok, \<open>getSlackUserIdByName\<close> does not reject: it writes one error line to the console
  and resolves with \<^verbatim>\<open>null\<close>. The loop of \<open>updateGroupMembers\<close> that called it goes
  on: it fetches the directory once for each name that remains and ends with the
  identifiers it had plus those the remaining names resolve to.
\<close>

theorem getSlackUserIdByName_listing_failure:
  assumes "env (calls_of tr) (UsersList (slackApiToken cfg)) = r"
    and "r = Rejected msg
         \<or> (\<exists>b. r = Resolved b \<and> \<not> body_ok b
                \<and> msg = ''Failed to list users: '' @ template (body_error b))"
  shows "getSlackUserIdByName cfg env name tr =
           (Inr None,
            tr @ [Request (UsersList (slackApiToken cfg)) r,
                  Console_error (''Failed to get Slack ID for '' @ name @ '': '' @ msg)])
       \<and> lookup_loop cfg env (name # rest) slackUserIds tr =
           lookup_loop cfg env rest slackUserIds
             (tr @ [Request (UsersList (slackApiToken cfg)) r,
                    Console_error (''Failed to get Slack ID for '' @ name @ '': '' @ msg),
                    Console_log (''Could not find Slack ID for '' @ name)])
       \<and> (\<exists>new. lookup_loop cfg env (name # rest) slackUserIds tr =
                  (Inr (slackUserIds @ nonempty_ids rest (listings (calls_of new))),
                   tr @ [Request (UsersList (slackApiToken cfg)) r,
                         Console_error (''Failed to get Slack ID for '' @ name @ '': '' @ msg),
                         Console_log (''Could not find Slack ID for '' @ name)] @ new)
                \<and> length (listings (calls_of new)) = length rest)"
proof -
  let ?tr = "tr @ [Request (UsersList (slackApiToken cfg)) r,
                  Console_error (''Failed to get Slack ID for '' @ name @ '': '' @ msg),
                  Console_log (''Could not find Slack ID for '' @ name)]"
  have 1: "getSlackUserIdByName cfg env name tr =
           (Inr None,
            tr @ [Request (UsersList (slackApiToken cfg)) r,
                  Console_error (''Failed to get Slack ID for '' @ name @ '': '' @ msg)])"
    using assms by (auto simp: getSlackUserIdByName_run resolves_to_def)
  have 2: "lookup_loop cfg env (name # rest) slackUserIds tr = lookup_loop cfg env rest slackUserIds ?tr"
    unfolding lookup_loop.simps 1 by (simp add: await_def)
  from lookup_loop_run [of cfg env rest slackUserIds ?tr]
  obtain new where
    "lookup_loop cfg env rest slackUserIds ?tr
       = (Inr (slackUserIds @ nonempty_ids rest (listings (calls_of new))), ?tr @ new)"
    and "length (listings (calls_of new)) = length rest"
    by blast
  with 1 2 show ?thesis
    by auto
qed

theorem getSlackUserIdByName_listing_failure_witness:
  "getSlackUserIdByName cfg0
     (services (Rejected ''unused'') (Rejected ''unused'') (Rejected ''unused'')
        (Resolved (error_body ''not_authed'')) (Rejected ''unused'') (Rejected ''unused''))
     ''Alice'' []
   = (Inr None,
      [Request (UsersList ''slack-token'') (Resolved (error_body ''not_authed'')),
       Console_error ''Failed to get Slack ID for Alice: Failed to list users: not_authed''])
   \<and> lookup_loop cfg0 (first_listing (Resolved (error_body ''not_authed'')))
       [''Alice'', ''bob''] [] []
   = (Inr [''U10''],
      [Request (UsersList ''slack-token'') (Resolved (error_body ''not_authed'')),
       Console_error ''Failed to get Slack ID for Alice: Failed to list users: not_authed'',
       Console_log ''Could not find Slack ID for Alice'',
       Request (UsersList ''slack-token'') (Resolved (members_body directory0)),
       Console_log ''Found Slack ID for bob: U10''])"
proof -
  let ?env = "services (Rejected ''unused'') (Rejected ''unused'') (Rejected ''unused'')
        (Resolved (error_body ''not_authed'')) (Rejected ''unused'') (Rejected ''unused'')"
  let ?flaky = "first_listing (Resolved (error_body ''not_authed''))"
  have 1: "?env (calls_of []) (UsersList (slackApiToken cfg0)) = Resolved (error_body ''not_authed'')"
    by (simp add: services_def)
  have 2: "Resolved (error_body ''not_authed'') = Rejected ''Failed to list users: not_authed''
         \<or> (\<exists>b. Resolved (error_body ''not_authed'') = Resolved b \<and> \<not> body_ok b
                \<and> ''Failed to list users: not_authed''
                    = ''Failed to list users: '' @ template (body_error b))"
    by (simp add: error_body_def absent_def)
  have 3: "?flaky (calls_of []) (UsersList (slackApiToken cfg0)) = Resolved (error_body ''not_authed'')"
    by (simp add: first_listing_def listings_def)
  from getSlackUserIdByName_listing_failure
         [where env = ?env and tr = "[]", OF 1 2]
  have a: "getSlackUserIdByName cfg0 ?env ''Alice'' []
   = (Inr None,
      [Request (UsersList ''slack-token'') (Resolved (error_body ''not_authed'')),
       Console_error ''Failed to get Slack ID for Alice: Failed to list users: not_authed''])"
    by (simp add: cfg0_def)
  note step = getSlackUserIdByName_listing_failure
                [where env = ?flaky and tr = "[]" and name = "''Alice''" and rest = "[''bob'']"
                    and slackUserIds = "[]", OF 3 2, THEN conjunct2, THEN conjunct1]
  have b: "lookup_loop cfg0 ?flaky [''Alice'', ''bob''] [] []
   = (Inr [''U10''],
      [Request (UsersList ''slack-token'') (Resolved (error_body ''not_authed'')),
       Console_error ''Failed to get Slack ID for Alice: Failed to list users: not_authed'',
       Console_log ''Could not find Slack ID for Alice'',
       Request (UsersList ''slack-token'') (Resolved (members_body directory0)),
       Console_log ''Found Slack ID for bob: U10''])"
    by (subst step) (simp add: run_defs sample_defs first_listing_def listings_def)
  from a b show ?thesis
    by simp
qed

section \<open>Properties of the group membership updater\<close>

text \<open>
  Claim C5. \<open>updateGroupMembers\<close> fetches the directory once for each name, in order.
  It sends the group overwrite if and only if at least one name resolves to a directory
  identifier, it sends it once, and the call carries exactly the identifiers of the
  names that resolved, in the order of the names, joined by commas; a name that does
  not resolve is dropped. When no name resolves the update endpoint is not contacted.
  What a name resolves to against a listing is \<open>resolves_to\<close>, which is what
  \<open>getSlackUserIdByName\<close> returns on that listing (lemma
  \<open>getSlackUserIdByName_run\<close>). The identifiers are those the directory issues: no
  entry of a listing that the run receives has the empty string as its \<^verbatim>\<open>id\<close>.
\<close>

theorem updateGroupMembers_update_iff_resolved:
  assumes "\<forall>r \<in> set (listings (new_calls tr (snd (updateGroupMembers cfg env users tr)))).
             \<forall>b members. r = Resolved b \<longrightarrow> body_members b = Present members
               \<longrightarrow> (\<forall>m \<in> set members. member_id m \<noteq> [])"
  shows "(let calls = new_calls tr (snd (updateGroupMembers cfg env users tr));
              ids = resolved_ids users (listings calls)
          in length (listings calls) = length users
             \<and> map fst (updates calls)
                 = (if ids = [] then []
                    else [UsergroupsUsersUpdate (slackApiToken cfg) (slackGroupId cfg)
                            (join '','' ids)]))"
  using updateGroupMembers_overwrite_truthy [of tr cfg env users] nonempty_ids_all [OF assms, of users]
  by (simp add: Let_def)

theorem updateGroupMembers_update_iff_resolved_witness:
  "map fst (updates (new_calls []
      (snd (updateGroupMembers cfg0 (healthy (Rejected ''unused''))
              [''Alice'', ''Nobody'', ''bob''] []))))
   = [UsergroupsUsersUpdate ''slack-token'' ''G1'' ''U11,U10'']"
proof -
  let ?env = "healthy (Rejected ''unused'')"
  let ?users = "[''Alice'', ''Nobody'', ''bob'']"
  have l: "listings (new_calls [] (snd (updateGroupMembers cfg0 ?env ?users [])))
             = [Resolved (members_body directory0), Resolved (members_body directory0),
                Resolved (members_body directory0)]"
    by (simp add: run_defs sample_defs trace_defs)
  have issued: "\<forall>r \<in> set (listings (new_calls [] (snd (updateGroupMembers cfg0 ?env ?users [])))).
             \<forall>b members. r = Resolved b \<longrightarrow> body_members b = Present members
               \<longrightarrow> (\<forall>m \<in> set members. member_id m \<noteq> [])"
    unfolding l by (auto simp: sample_defs)
  from updateGroupMembers_update_iff_resolved [OF issued]
  have "map fst (updates (new_calls [] (snd (updateGroupMembers cfg0 ?env ?users []))))
          = (if resolved_ids ?users
                  (listings (new_calls [] (snd (updateGroupMembers cfg0 ?env ?users [])))) = []
             then []
             else [UsergroupsUsersUpdate (slackApiToken cfg0) (slackGroupId cfg0)
                     (join '',''
                        (resolved_ids ?users
                           (listings (new_calls [] (snd (updateGroupMembers cfg0 ?env ?users [])))))) ])"
    by (simp only: Let_def)
  then show ?thesis
    unfolding l by (simp add: resolves_to_def sample_defs)
qed

text \<open>
  Claim C7, amended. A rejected overwrite call (step 4) aborts \<open>updateGroupMembers\<close>,
  and the error is the call's message behind the prefix
  \<^verbatim>\<open>Failed to update group members: \<close>. A call that fails while the current membership
  is fetched (step 1) or while a name is resolved (step 2) does not abort it: such a
  failure is caught inside \<open>getCurrentGroupMembers\<close> and \<open>getSlackUserIdByName\<close>,
  so the component resolves whenever it sends no overwrite, and whenever the overwrite
  it sends is answered with \<^verbatim>\<open>ok: true\<close>.
\<close>

theorem updateGroupMembers_fatal_only_at_update:
  "(updates (new_calls tr (snd (updateGroupMembers cfg env users tr))) = []
      \<longrightarrow> fst (updateGroupMembers cfg env users tr) = Inr ())
   \<and> (\<forall>q m. updates (new_calls tr (snd (updateGroupMembers cfg env users tr)))
                 = [(q, Rejected m)]
      \<longrightarrow> fst (updateGroupMembers cfg env users tr)
            = Inl (Error (''Failed to update group members: '' @ m)))
   \<and> (\<forall>q b. updates (new_calls tr (snd (updateGroupMembers cfg env users tr)))
                 = [(q, Resolved b)] \<and> body_ok b
      \<longrightarrow> fst (updateGroupMembers cfg env users tr) = Inr ())"
proof -
  from updateGroupMembers_run [of cfg env users tr]
  obtain new where
    tr': "snd (updateGroupMembers cfg env users tr) = tr @ new"
    and upd: "if nonempty_ids users (listings (calls_of new)) = []
              then fst (updateGroupMembers cfg env users tr) = Inr ()
                   \<and> updates (calls_of new) = []
              else \<exists>r. updates (calls_of new) =
                         [(UsergroupsUsersUpdate (slackApiToken cfg) (slackGroupId cfg)
                             (join '','' (nonempty_ids users (listings (calls_of new)))), r)]
                       \<and> fst (updateGroupMembers cfg env users tr) =
                           (case r of
                              Rejected m \<Rightarrow> Inl (Error (''Failed to update group members: '' @ m))
                            | Resolved b \<Rightarrow> Inr ())"
    by blast
  have calls: "new_calls tr (snd (updateGroupMembers cfg env users tr)) = calls_of new"
    unfolding tr' by (rule new_calls_append)
  show ?thesis
  proof (cases "nonempty_ids users (listings (calls_of new)) = []")
    case True
    with upd show ?thesis
      unfolding calls by simp
  next
    case False
    with upd obtain r where
      u: "updates (calls_of new) =
            [(UsergroupsUsersUpdate (slackApiToken cfg) (slackGroupId cfg)
                (join '','' (nonempty_ids users (listings (calls_of new)))), r)]"
      and res: "fst (updateGroupMembers cfg env users tr) =
                  (case r of
                     Rejected m \<Rightarrow> Inl (Error (''Failed to update group members: '' @ m))
                   | Resolved b \<Rightarrow> Inr ())"
      by auto
    show ?thesis
      unfolding calls u res by (cases r) auto
  qed
qed

theorem updateGroupMembers_fatal_only_at_update_witness:
  "fst (updateGroupMembers cfg0
          (services (Rejected ''unused'') (Resolved (users_body [''U10'']))
             (Resolved (user_body ''Bob Jones'')) (Resolved (members_body directory0))
             (Rejected ''Request failed with status code 500'') (Resolved ok_body))
          [''Alice''] [])
   = Inl (Error ''Failed to update group members: Request failed with status code 500'')"
proof -
  let ?env = "services (Rejected ''unused'') (Resolved (users_body [''U10'']))
             (Resolved (user_body ''Bob Jones'')) (Resolved (members_body directory0))
             (Rejected ''Request failed with status code 500'') (Resolved ok_body)"
  have sent: "updates (new_calls [] (snd (updateGroupMembers cfg0 ?env [''Alice''] [])))
        = [(UsergroupsUsersUpdate ''slack-token'' ''G1'' ''U11'',
            Rejected ''Request failed with status code 500'')]"
    by (simp add: run_defs sample_defs trace_defs)
  from updateGroupMembers_fatal_only_at_update
         [of "[]" cfg0 ?env "[''Alice'']", THEN conjunct2, THEN conjunct1, rule_format, OF sent]
  show ?thesis
    by simp
qed

text \<open>
  As the claim is worded it fails for steps 1 and 2: with the directory listing rejected
  the component resolves after skipping the update, and with the membership listing
  rejected it resolves after sending the update.
\<close>

theorem updateGroupMembers_read_failures_counterexample:
  "updateGroupMembers cfg0
     (services (Rejected ''unused'') (Resolved (users_body [''U10'']))
        (Resolved (user_body ''Bob Jones'')) (Rejected ''Network Error'')
        (Resolved ok_body) (Resolved ok_body))
     [''Alice''] []
   = (Inr (),
      [Console_log ''Current group members:'',
       Request (UsergroupsUsersList ''slack-token'' ''G1'') (Resolved (users_body [''U10''])),
       Request (UsersInfo ''slack-token'' ''U10'') (Resolved (user_body ''Bob Jones'')),
       Console_log ''Bob Jones'',
       Console_log (newline @ ''Looking up Slack IDs for users...''),
       Request (UsersList ''slack-token'') (Rejected ''Network Error''),
       Console_error ''Failed to get Slack ID for Alice: Network Error'',
       Console_log ''Could not find Slack ID for Alice'',
       Console_log ''No valid Slack user IDs found, skipping update''])
   \<and> updateGroupMembers cfg0
     (services (Rejected ''unused'') (Rejected ''Network Error'') (Rejected ''unused'')
        (Resolved (members_body directory0)) (Resolved ok_body) (Resolved ok_body))
     [''Alice''] []
   = (Inr (),
      [Console_log ''Current group members:'',
       Request (UsergroupsUsersList ''slack-token'' ''G1'') (Rejected ''Network Error''),
       Console_error ''Failed to get current group members: Network Error'',
       Console_log ''None'',
       Console_log (newline @ ''Looking up Slack IDs for users...''),
       Request (UsersList ''slack-token'') (Resolved (members_body directory0)),
       Console_log ''Found Slack ID for Alice: U11'',
       Console_log (newline @ ''Updating Slack user group with: Alice''),
       Request (UsergroupsUsersUpdate ''slack-token'' ''G1'' ''U11'') (Resolved ok_body),
       Console_log (newline @ ''New group members:''),
       Request (UsergroupsUsersList ''slack-token'' ''G1'') (Rejected ''Network Error''),
       Console_error ''Failed to get current group members: Network Error'',
       Console_log ''None'',
       Console_log ''Successfully updated Slack group members''])"
  by (simp add: run_defs sample_defs)

section \<open>Properties of the orchestrator\<close>

text \<open>
  Claim C6. When no record of the on-call payload is usable (each lacks its user or its
  schedule, or has an excluded schedule), \<open>updateSlackGroup\<close> stops normally after the
  on-call query: the query is the only request of the run, so no notification is posted
  and no group update is sent.
\<close>

theorem updateSlackGroup_no_usable_records:
  assumes "env (calls_of tr) (PagerDutyOncalls (pagerdutyApiToken cfg)) = Resolved b"
    and "body_oncalls b = Some oncalls"
    and "\<forall>oc \<in> set oncalls.
           oncall_user oc = None \<or> oncall_schedule oc = None
           \<or> (\<exists>s. oncall_schedule oc = Some s \<and> schedule_id s \<in> set (skipSchedules cfg))"
  shows "updateSlackGroup cfg env tr =
           (Inr (),
            tr @ [Console_log ''Starting Slack group update...'',
                  Console_log ''Fetching on-call users from PagerDuty...'',
                  Request (PagerDutyOncalls (pagerdutyApiToken cfg)) (Resolved b),
                  Console_log ''Found on-call users: '',
                  Console_log ''No on-call users found''])
       \<and> new_calls tr (snd (updateSlackGroup cfg env tr))
           = [(PagerDutyOncalls (pagerdutyApiToken cfg), Resolved b)]
       \<and> posts (new_calls tr (snd (updateSlackGroup cfg env tr))) = []
       \<and> updates (new_calls tr (snd (updateSlackGroup cfg env tr))) = []"
proof -
  have "\<forall>oc \<in> set oncalls. oncall_user oc = None \<or> oncall_schedule oc = None
       \<or> schedule_id (the (oncall_schedule oc)) \<in> set (skipSchedules cfg)"
    using assms(3) by fastforce
  then have "forEach_oncall cfg oncalls [] = []"
    by (rule forEach_oncall_unusable)
  then have "forEach_oncall cfg (case body_oncalls b of None \<Rightarrow> [] | Some xs \<Rightarrow> xs) [] = []"
    by (simp add: assms(2))
  from updateSlackGroup_empty [where env = env, OF assms(1) this]
  show ?thesis
    by (simp add: new_calls_append posts_def updates_def)
qed

theorem updateSlackGroup_no_usable_records_witness:
  "updateSlackGroup cfg0
     (healthy (Resolved (oncalls_body
        [assignment ''S1'' ''U1'' ''Alice'',
         \<lparr>oncall_user = None, oncall_schedule = Some \<lparr>schedule_id = ''S2''\<rparr>\<rparr>])))
     []
   = (Inr (),
      [Console_log ''Starting Slack group update...'',
       Console_log ''Fetching on-call users from PagerDuty...'',
       Request (PagerDutyOncalls ''pd-token'')
         (Resolved (oncalls_body
            [assignment ''S1'' ''U1'' ''Alice'',
             \<lparr>oncall_user = None, oncall_schedule = Some \<lparr>schedule_id = ''S2''\<rparr>\<rparr>])),
       Console_log ''Found on-call users: '',
       Console_log ''No on-call users found''])"
proof -
  let ?ocs = "[assignment ''S1'' ''U1'' ''Alice'',
               \<lparr>oncall_user = None, oncall_schedule = Some \<lparr>schedule_id = ''S2''\<rparr>\<rparr>]"
  let ?env = "healthy (Resolved (oncalls_body ?ocs))"
  have 1: "?env (calls_of []) (PagerDutyOncalls (pagerdutyApiToken cfg0)) = Resolved (oncalls_body ?ocs)"
    by (simp add: healthy_def services_def)
  have 2: "body_oncalls (oncalls_body ?ocs) = Some ?ocs"
    by (simp add: oncalls_body_def absent_def)
  have 3: "\<forall>oc \<in> set ?ocs.
             oncall_user oc = None \<or> oncall_schedule oc = None
             \<or> (\<exists>s. oncall_schedule oc = Some s \<and> schedule_id s \<in> set (skipSchedules cfg0))"
    by (simp add: assignment_def cfg0_def)
  from updateSlackGroup_no_usable_records [where env = ?env and tr = "[]", OF 1 2 3]
  show ?thesis
    by (simp add: cfg0_def)
qed

text \<open>
  Claim C9. \<open>updateSlackGroup\<close> never rejects. An error that comes out of the on-call
  lookup, out of the notification post or out of the membership update is caught, and
  the run ends with one console line that carries the error's message. When the on-call
  query itself is rejected (a status 500, say), that query is the only request of the
  run: nothing is posted and no update is sent.
\<close>

theorem updateSlackGroup_catches_every_error:
  "fst (updateSlackGroup cfg env tr) = Inr ()
   \<and> (\<forall>e tr1.
         getOnCallUsers cfg env (tr @ [Console_log ''Starting Slack group update...'']) = (Inl e, tr1)
         \<longrightarrow> updateSlackGroup cfg env tr =
               (Inr (), tr1 @ [Console_error (''Failed to update Slack group: '' @ message e)]))
   \<and> (\<forall>users tr1 m.
         getOnCallUsers cfg env (tr @ [Console_log ''Starting Slack group update...'']) = (Inr users, tr1)
         \<and> users \<noteq> []
         \<and> env (calls_of tr1) (ChatPostMessage (slackApiToken cfg) (slackChannelId cfg)
                (notification_text users)) = Rejected m
         \<longrightarrow> updateSlackGroup cfg env tr =
               (Inr (), tr1 @ [Request (ChatPostMessage (slackApiToken cfg) (slackChannelId cfg)
                                  (notification_text users)) (Rejected m),
                               Console_error (''Failed to update Slack group: '' @ m)]))
   \<and> (\<forall>users tr1 b e tr2.
         getOnCallUsers cfg env (tr @ [Console_log ''Starting Slack group update...'']) = (Inr users, tr1)
         \<and> users \<noteq> []
         \<and> env (calls_of tr1) (ChatPostMessage (slackApiToken cfg) (slackChannelId cfg)
                (notification_text users)) = Resolved b
         \<and> updateGroupMembers cfg env users
               (tr1 @ [Request (ChatPostMessage (slackApiToken cfg) (slackChannelId cfg)
                         (notification_text users)) (Resolved b)]) = (Inl e, tr2)
         \<longrightarrow> updateSlackGroup cfg env tr =
               (Inr (), tr2 @ [Console_error (''Failed to update Slack group: '' @ message e)]))
   \<and> (\<forall>m.
         env (calls_of tr) (PagerDutyOncalls (pagerdutyApiToken cfg)) = Rejected m
         \<longrightarrow> updateSlackGroup cfg env tr =
               (Inr (),
                tr @ [Console_log ''Starting Slack group update...'',
                      Console_log ''Fetching on-call users from PagerDuty...'',
                      Request (PagerDutyOncalls (pagerdutyApiToken cfg)) (Rejected m),
                      Console_error (''Failed to update Slack group: ''
                                       @ ''Failed to get on-call users: '' @ m)])
             \<and> posts (new_calls tr (snd (updateSlackGroup cfg env tr))) = []
             \<and> updates (new_calls tr (snd (updateSlackGroup cfg env tr))) = [])"
proof (intro conjI allI impI)
  show "fst (updateSlackGroup cfg env tr) = Inr ()"
    by (rule updateSlackGroup_resolves)
next
  fix e tr1
  assume "getOnCallUsers cfg env (tr @ [Console_log ''Starting Slack group update...'']) = (Inl e, tr1)"
  then show "updateSlackGroup cfg env tr =
               (Inr (), tr1 @ [Console_error (''Failed to update Slack group: '' @ message e)])"
    by (rule updateSlackGroup_lookup_error)
next
  fix users tr1 m
  assume "getOnCallUsers cfg env (tr @ [Console_log ''Starting Slack group update...'']) = (Inr users, tr1)
         \<and> users \<noteq> []
         \<and> env (calls_of tr1) (ChatPostMessage (slackApiToken cfg) (slackChannelId cfg)
                (notification_text users)) = Rejected m"
  then show "updateSlackGroup cfg env tr =
               (Inr (), tr1 @ [Request (ChatPostMessage (slackApiToken cfg) (slackChannelId cfg)
                                  (notification_text users)) (Rejected m),
                               Console_error (''Failed to update Slack group: '' @ m)])"
    using updateSlackGroup_post_error [where env = env] by blast
next
  fix users tr1 b e tr2
  assume "getOnCallUsers cfg env (tr @ [Console_log ''Starting Slack group update...'']) = (Inr users, tr1)
         \<and> users \<noteq> []
         \<and> env (calls_of tr1) (ChatPostMessage (slackApiToken cfg) (slackChannelId cfg)
                (notification_text users)) = Resolved b
         \<and> updateGroupMembers cfg env users
               (tr1 @ [Request (ChatPostMessage (slackApiToken cfg) (slackChannelId cfg)
                         (notification_text users)) (Resolved b)]) = (Inl e, tr2)"
  then show "updateSlackGroup cfg env tr =
               (Inr (), tr2 @ [Console_error (''Failed to update Slack group: '' @ message e)])"
    using updateSlackGroup_update_error [where env = env] by blast
next
  fix m
  assume rej: "env (calls_of tr) (PagerDutyOncalls (pagerdutyApiToken cfg)) = Rejected m"
  from updateSlackGroup_lookup_rejected [where env = env, OF rej]
  show run: "updateSlackGroup cfg env tr =
               (Inr (),
                tr @ [Console_log ''Starting Slack group update...'',
                      Console_log ''Fetching on-call users from PagerDuty...'',
                      Request (PagerDutyOncalls (pagerdutyApiToken cfg)) (Rejected m),
                      Console_error (''Failed to update Slack group: ''
                                       @ ''Failed to get on-call users: '' @ m)])" .
  show "posts (new_calls tr (snd (updateSlackGroup cfg env tr))) = []"
    unfolding run by (simp add: new_calls_append posts_def)
  show "updates (new_calls tr (snd (updateSlackGroup cfg env tr))) = []"
    unfolding run by (simp add: new_calls_append updates_def)
qed

theorem updateSlackGroup_catches_every_error_witness:
  "updateSlackGroup cfg0 (healthy (Rejected ''Request failed with status code 500'')) []
   = (Inr (),
      [Console_log ''Starting Slack group update...'',
       Console_log ''Fetching on-call users from PagerDuty...'',
       Request (PagerDutyOncalls ''pd-token'') (Rejected ''Request failed with status code 500''),
       Console_error ''Failed to update Slack group: Failed to get on-call users: Request failed with status code 500''])"
proof -
  let ?env = "healthy (Rejected ''Request failed with status code 500'')"
  have 1: "?env (calls_of []) (PagerDutyOncalls (pagerdutyApiToken cfg0))
             = Rejected ''Request failed with status code 500''"
    by (simp add: healthy_def services_def)
  from updateSlackGroup_catches_every_error [where env = ?env and tr = "[]" and cfg = cfg0]
  have "\<forall>m. ?env (calls_of []) (PagerDutyOncalls (pagerdutyApiToken cfg0)) = Rejected m
         \<longrightarrow> updateSlackGroup cfg0 ?env [] =
               (Inr (),
                [] @ [Console_log ''Starting Slack group update...'',
                      Console_log ''Fetching on-call users from PagerDuty...'',
                      Request (PagerDutyOncalls (pagerdutyApiToken cfg0)) (Rejected m),
                      Console_error (''Failed to update Slack group: ''
                                       @ ''Failed to get on-call users: '' @ m)])"
    by blast
  with 1 show ?thesis
    by (simp add: cfg0_def)
qed

text \<open>
  Claim C10. A response of the on-call provider whose body has no \<^verbatim>\<open>oncalls\<close> field
  (or has it \<^verbatim>\<open>null\<close>) is read as an empty list of records: \<open>getOnCallUsers\<close>
  resolves with the empty list, and the run of \<open>updateSlackGroup\<close> ends on the branch
  for zero users.
\<close>

theorem getOnCallUsers_missing_oncalls:
  assumes "env (calls_of tr) (PagerDutyOncalls (pagerdutyApiToken cfg)) = Resolved b"
    and "body_oncalls b = None"
  shows "fst (getOnCallUsers cfg env tr) = Inr []
       \<and> updateSlackGroup cfg env tr =
           (Inr (),
            tr @ [Console_log ''Starting Slack group update...'',
                  Console_log ''Fetching on-call users from PagerDuty...'',
                  Request (PagerDutyOncalls (pagerdutyApiToken cfg)) (Resolved b),
                  Console_log ''Found on-call users: '',
                  Console_log ''No on-call users found''])"
proof -
  have "forEach_oncall cfg (case body_oncalls b of None \<Rightarrow> [] | Some xs \<Rightarrow> xs) [] = []"
    by (simp add: assms(2))
  from updateSlackGroup_empty [where env = env, OF assms(1) this]
  have "updateSlackGroup cfg env tr =
           (Inr (),
            tr @ [Console_log ''Starting Slack group update...'',
                  Console_log ''Fetching on-call users from PagerDuty...'',
                  Request (PagerDutyOncalls (pagerdutyApiToken cfg)) (Resolved b),
                  Console_log ''Found on-call users: '',
                  Console_log ''No on-call users found''])" .
  moreover have "fst (getOnCallUsers cfg env tr) = Inr []"
    using assms by (simp add: getOnCallUsers_resolved Map_values_def)
  ultimately show ?thesis
    by simp
qed

theorem getOnCallUsers_missing_oncalls_witness:
  "fst (getOnCallUsers cfg0 (healthy (Resolved ok_body)) []) = Inr []
   \<and> updateSlackGroup cfg0 (healthy (Resolved ok_body)) []
     = (Inr (),
        [Console_log ''Starting Slack group update...'',
         Console_log ''Fetching on-call users from PagerDuty...'',
         Request (PagerDutyOncalls ''pd-token'') (Resolved ok_body),
         Console_log ''Found on-call users: '',
         Console_log ''No on-call users found''])"
proof -
  let ?env = "healthy (Resolved ok_body)"
  have 1: "?env (calls_of []) (PagerDutyOncalls (pagerdutyApiToken cfg0)) = Resolved ok_body"
    by (simp add: healthy_def services_def)
  have 2: "body_oncalls ok_body = None"
    by (simp add: ok_body_def absent_def)
  from getOnCallUsers_missing_oncalls [where env = ?env and tr = "[]", OF 1 2]
  show ?thesis
    by (simp add: cfg0_def)
qed

section \<open>The success flag of the write calls\<close>

text \<open>
  Claim C8 asks that the \<^verbatim>\<open>ok\<close> flag of every response of the messaging platform be
  checked and a false flag be surfaced with the \<^verbatim>\<open>error\<close> field. The two listings
  do so; \<^verbatim>\<open>chat.postMessage\<close> and \<^verbatim>\<open>usergroups.users.update\<close> do not: their
  responses are dropped unread. On a platform that answers both with \<^verbatim>\<open>ok: false\<close> the
  run below writes no error line and ends with the two lines that report success.
\<close>

theorem updateSlackGroup_ignores_ok_flag:
  "updateSlackGroup cfg0
     (services (Resolved (oncalls_body [assignment ''S2'' ''U1'' ''Alice'']))
        (Resolved (users_body [''U10''])) (Resolved (user_body ''Bob Jones''))
        (Resolved (members_body directory0))
        (Resolved (error_body ''invalid_users'')) (Resolved (error_body ''channel_not_found'')))
     []
   = (Inr (),
      [Console_log ''Starting Slack group update...'',
       Console_log ''Fetching on-call users from PagerDuty...'',
       Request (PagerDutyOncalls ''pd-token'')
         (Resolved (oncalls_body [assignment ''S2'' ''U1'' ''Alice''])),
       Console_log ''Found on-call users: Alice'',
       Request (ChatPostMessage ''slack-token'' ''C1'' (notification_text [''Alice'']))
         (Resolved (error_body ''channel_not_found'')),
       Console_log ''Current group members:'',
       Request (UsergroupsUsersList ''slack-token'' ''G1'') (Resolved (users_body [''U10''])),
       Request (UsersInfo ''slack-token'' ''U10'') (Resolved (user_body ''Bob Jones'')),
       Console_log ''Bob Jones'',
       Console_log (newline @ ''Looking up Slack IDs for users...''),
       Request (UsersList ''slack-token'') (Resolved (members_body directory0)),
       Console_log ''Found Slack ID for Alice: U11'',
       Console_log (newline @ ''Updating Slack user group with: Alice''),
       Request (UsergroupsUsersUpdate ''slack-token'' ''G1'' ''U11'')
         (Resolved (error_body ''invalid_users'')),
       Console_log (newline @ ''New group members:''),
       Request (UsergroupsUsersList ''slack-token'' ''G1'') (Resolved (users_body [''U10''])),
       Request (UsersInfo ''slack-token'' ''U10'') (Resolved (user_body ''Bob Jones'')),
       Console_log ''Bob Jones'',
       Console_log ''Successfully updated Slack group members'',
       Console_log (check_mark @ '' Slack user group update complete'')])
   \<and> \<not> body_ok (error_body ''invalid_users'')
   \<and> \<not> body_ok (error_body ''channel_not_found'')"
  by (simp add: run_defs sample_defs)

end
